theory Spec2Isabelle
  imports Main "HOL-Library.Word"
begin

section \<open>JavaScript values used by fmjs\<close>

text \<open>
  Paths, titles, identifiers and wire text are \<open>string\<close>s. The two buffer conversions
  work on character codes, so their strings are lists of 16-bit code units and their
  buffers are lists of bytes.
\<close>

type_synonym byte = "8 word"
type_synonym code_unit = "16 word"
type_synonym jsstring = "code_unit list"

definition CRLF :: string where
  "CRLF = [CHR 0x0D, CHR 0x0A]"

definition dq :: string where
  "dq = [CHR 0x22]"

definition sq :: string where
  "sq = [CHR 0x27]"

subsection \<open>String.prototype.split, lastIndexOf, substring\<close>

text \<open>
  \<open>s.split(sep)\<close> for a one-character separator: the pieces between the separators, so
  the empty string gives one empty piece and a leading separator gives a leading
  empty piece.
\<close>

fun split_js :: "char \<Rightarrow> string \<Rightarrow> string list" where
  "split_js sep [] = [[]]"
| "split_js sep (c # cs) =
     (if c = sep then [] # split_js sep cs
      else (c # hd (split_js sep cs)) # tl (split_js sep cs))"

text \<open>\<open>xs[i]\<close>: \<open>None\<close> stands for \<open>undefined\<close>.\<close>

definition js_index :: "'a list \<Rightarrow> nat \<Rightarrow> 'a option" where
  "js_index xs i = (if i < length xs then Some (xs ! i) else None)"

text \<open>\<open>xs.slice(n)\<close> for \<open>n \<ge> 0\<close>.\<close>

definition slice_from :: "nat \<Rightarrow> 'a list \<Rightarrow> 'a list" where
  "slice_from n xs = drop n xs"

text \<open>\<open>s.lastIndexOf(c)\<close>: the index of the last occurrence, \<open>-1\<close> when there is none.\<close>

definition lastIndexOf :: "string \<Rightarrow> char \<Rightarrow> int" where
  "lastIndexOf s c =
     (if c \<in> set s
      then int (length s) - 1 - int (length (takeWhile (\<lambda>x. x \<noteq> c) (rev s)))
      else - 1)"

text \<open>
  \<open>s.substring(a, b)\<close>: both arguments are clamped to \<open>[0, length]\<close> and swapped when
  \<open>a > b\<close>.
\<close>

definition substring :: "string \<Rightarrow> int \<Rightarrow> int \<Rightarrow> string" where
  "substring s a b =
     (let n = int (length s);
          a' = max 0 (min a n);
          b' = max 0 (min b n);
          lo = min a' b';
          hi = max a' b'
      in take (nat (hi - lo)) (drop (nat lo) s))"

text \<open>\<open>s.substring(a)\<close>.\<close>

definition substring_from :: "string \<Rightarrow> int \<Rightarrow> string" where
  "substring_from s a = substring s a (int (length s))"

section \<open>fmjs.path2array\<close>

definition path2array :: "string \<Rightarrow> string list" where
  "path2array path =
     (let entries = split_js CHR ''/'' path
      in if js_index entries 0 = Some ''.'' \<or> js_index entries 0 = Some ''''
         then slice_from 1 entries
         else entries)"

text \<open>
  The specification's wording of the same function: split on the slash, remove the
  first element when it is empty or a dot, keep the rest as they are.
\<close>

fun join_slash :: "string list \<Rightarrow> string" where
  "join_slash [] = []"
| "join_slash [x] = x"
| "join_slash (x # y # ys) = x @ CHR ''/'' # join_slash (y # ys)"

definition pathToSegments :: "string \<Rightarrow> string list" where
  "pathToSegments p =
     (case split_js CHR ''/'' p of
        [] \<Rightarrow> []
      | s # rest \<Rightarrow> if s = '''' \<or> s = ''.'' then rest else s # rest)"

section \<open>fmjs.ab2str and fmjs.str2ab\<close>

text \<open>
  \<open>String.fromCharCode\<close> gives one code unit for each number it is given.
  \<open>String.fromCharCode.apply(null, new Uint8Array(buf))\<close> passes one argument for each
  byte of the buffer, and a call with more arguments than the engine allows raises
  RangeError (\<open>None\<close>). The limit is the engine's, not the program's: it is the
  parameter \<open>max_args\<close>.
\<close>

definition fromCharCode :: "nat \<Rightarrow> code_unit" where
  "fromCharCode n = of_nat n"

definition fromCharCode_apply :: "nat \<Rightarrow> nat list \<Rightarrow> jsstring option" where
  "fromCharCode_apply max_args codes =
     (if length codes \<le> max_args then Some (map fromCharCode codes) else None)"

definition ab2str :: "nat \<Rightarrow> byte list \<Rightarrow> jsstring option" where
  "ab2str max_args buf = fromCharCode_apply max_args (map unat buf)"

text \<open>\<open>str.charCodeAt(i)\<close>: \<open>None\<close> stands for \<open>NaN\<close>, the result out of range.\<close>

definition charCodeAt :: "jsstring \<Rightarrow> nat \<Rightarrow> nat option" where
  "charCodeAt str i = (if i < length str then Some (unat (str ! i)) else None)"

text \<open>
  \<open>bufView[i] = v\<close> on a \<open>Uint8Array\<close>: the number is reduced modulo 256 (\<open>NaN\<close> stores
  0), and a store out of range does nothing.
\<close>

definition uint8_store :: "byte list \<Rightarrow> nat \<Rightarrow> nat option \<Rightarrow> byte list" where
  "uint8_store bufView i v =
     (if i < length bufView
      then bufView[i := (case v of None \<Rightarrow> 0 | Some n \<Rightarrow> of_nat n)]
      else bufView)"

function str2ab_loop :: "jsstring \<Rightarrow> nat \<Rightarrow> nat \<Rightarrow> byte list \<Rightarrow> byte list" where
  "str2ab_loop str i strLen bufView =
     (if i < strLen
      then str2ab_loop str (Suc i) strLen (uint8_store bufView i (charCodeAt str i))
      else bufView)"
  by pat_completeness auto
termination
  by (relation "measure (\<lambda>(str, i, strLen, bufView). strLen - i)") auto

declare str2ab_loop.simps [simp del]

definition str2ab :: "jsstring \<Rightarrow> byte list" where
  "str2ab str = str2ab_loop str 0 (length str) (replicate (length str) 0)"

section \<open>Built-ins: JSON.stringify, btoa, atob\<close>

text \<open>
  The three built-ins the cloud backend calls, written out from their standards for
  the values this program gives them: objects, arrays and strings for
  \<open>JSON.stringify\<close>, and base64 with padding for \<open>btoa\<close> and \<open>atob\<close>.
\<close>

datatype json = JString string | JArray "json list" | JObject "(string \<times> json) list"

definition hex_digit :: "nat \<Rightarrow> char" where
  "hex_digit n = ''0123456789abcdef'' ! (n mod 16)"

definition quote_char :: "char \<Rightarrow> string" where
  "quote_char c =
     (if c = CHR 0x22 then [CHR 0x5C, CHR 0x22]
      else if c = CHR 0x5C then [CHR 0x5C, CHR 0x5C]
      else if c = CHR 0x08 then [CHR 0x5C, CHR ''b'']
      else if c = CHR 0x0C then [CHR 0x5C, CHR ''f'']
      else if c = CHR 0x0A then [CHR 0x5C, CHR ''n'']
      else if c = CHR 0x0D then [CHR 0x5C, CHR ''r'']
      else if c = CHR 0x09 then [CHR 0x5C, CHR ''t'']
      else if (of_char c :: nat) < 32
      then [CHR 0x5C, CHR ''u'', CHR ''0'', CHR ''0'',
            hex_digit (of_char c div 16), hex_digit (of_char c)]
      else [c])"

definition QuoteJSONString :: "string \<Rightarrow> string" where
  "QuoteJSONString s = dq @ concat (map quote_char s) @ dq"

fun commas :: "string list \<Rightarrow> string" where
  "commas [] = []"
| "commas [x] = x"
| "commas (x # y # ys) = x @ '','' @ commas (y # ys)"

fun JSON_stringify :: "json \<Rightarrow> string" where
  "JSON_stringify (JString s) = QuoteJSONString s"
| "JSON_stringify (JArray xs) = ''['' @ commas (map JSON_stringify xs) @ '']''"
| "JSON_stringify (JObject kvs) =
     ''{'' @ commas (map (\<lambda>(k, v). QuoteJSONString k @ '':'' @ JSON_stringify v) kvs) @ ''}''"

definition b64_alphabet :: string where
  "b64_alphabet = ''ABCDEFGHIJKLMNOPQRSTUVWXYZabcdefghijklmnopqrstuvwxyz0123456789+/''"

definition b64_char :: "nat \<Rightarrow> char" where
  "b64_char n = b64_alphabet ! (n mod 64)"

fun base64_encode :: "nat list \<Rightarrow> string" where
  "base64_encode (a # b # c # rest) =
     [b64_char (a div 4), b64_char ((a mod 4) * 16 + b div 16),
      b64_char ((b mod 16) * 4 + c div 64), b64_char (c mod 64)] @ base64_encode rest"
| "base64_encode [a, b] =
     [b64_char (a div 4), b64_char ((a mod 4) * 16 + b div 16),
      b64_char ((b mod 16) * 4), CHR ''='']"
| "base64_encode [a] =
     [b64_char (a div 4), b64_char ((a mod 4) * 16), CHR ''='', CHR ''='']"
| "base64_encode [] = []"

text \<open>\<open>btoa\<close> raises InvalidCharacterError (\<open>None\<close>) on a code unit above 255.\<close>

definition btoa :: "jsstring \<Rightarrow> string option" where
  "btoa s =
     (if list_all (\<lambda>c. unat c < 256) s then Some (base64_encode (map unat s)) else None)"

fun index_of :: "'a \<Rightarrow> 'a list \<Rightarrow> nat option" where
  "index_of x [] = None"
| "index_of x (y # ys) = (if x = y then Some 0 else map_option Suc (index_of x ys))"

definition is_ascii_whitespace :: "char \<Rightarrow> bool" where
  "is_ascii_whitespace c = (c \<in> set [CHR 0x09, CHR 0x0A, CHR 0x0C, CHR 0x0D, CHR 0x20])"

definition strip_padding :: "string \<Rightarrow> string" where
  "strip_padding d =
     (if d \<noteq> [] \<and> length d mod 4 = 0 \<and> last d = CHR ''=''
      then (if butlast d \<noteq> [] \<and> last (butlast d) = CHR ''=''
            then butlast (butlast d) else butlast d)
      else d)"

fun base64_decode :: "nat list \<Rightarrow> nat list" where
  "base64_decode (a # b # c # d # rest) =
     [a * 4 + b div 16, (b mod 16) * 16 + c div 4, (c mod 4) * 64 + d] @ base64_decode rest"
| "base64_decode [a, b, c] = [a * 4 + b div 16, (b mod 16) * 16 + c div 4]"
| "base64_decode [a, b] = [a * 4 + b div 16]"
| "base64_decode [a] = []"
| "base64_decode [] = []"

text \<open>\<open>atob\<close> raises InvalidCharacterError (\<open>None\<close>) on text that is not base64.\<close>

definition atob :: "string \<Rightarrow> jsstring option" where
  "atob data =
     (let d = strip_padding (filter (\<lambda>c. \<not> is_ascii_whitespace c) data)
      in if length d mod 4 = 1 then None
         else case those (map (\<lambda>c. index_of c b64_alphabet) d) of
                None \<Rightarrow> None
              | Some vs \<Rightarrow> Some (map fromCharCode (base64_decode vs)))"

text \<open>\<open>a || b\<close> on a property that may be missing: the empty string is falsy too.\<close>

definition js_or :: "string option \<Rightarrow> string \<Rightarrow> string" where
  "js_or a b = (case a of None \<Rightarrow> b | Some s \<Rightarrow> if s = [] then b else s)"

section \<open>The remote collaborator: gapi and the drive service\<close>

text \<open>
  Modelled from the spec: the remote API collaborator of the cloud backend, which is
  Google's client library and service, not code of fmjs. It offers authorization,
  list-children by folder, name and type, insert-entry, get-entry, copy-entry,
  delete-entry, get-current-user, the multipart upload and the authorized download.

  The store is the list of entries. A listing query is the text the program builds;
  the service answers it by comparison with the query for an entry's own title, which
  is the name filter and the type filter of the spec. The service fixes no order for
  the answers of a listing: each listing answers the matching entries rotated by the
  next number of \<open>listing_picks\<close> (taken as 0 when none is left), so that any match
  may come first, and a later listing of the same folder may answer in another order;
  of an answer the program reads only whether it is empty and its first item.
  The requests of gapi are always answered; the upload and the download have a failure
  outcome of their own. Every request and every console line is appended to \<open>trace\<close>.
  \<open>max_arguments\<close> is the limit of the JavaScript engine on the arguments of a call.
\<close>

record entry =
  eid :: string
  title :: string
  mimeType :: string
  parents :: "string list"
  downloadUrl :: string
  content :: string

record userinfo =
  name :: string
  emailAddress :: string

record request =
  req_path :: string
  req_method :: string
  req_params :: "(string \<times> string) list"
  req_headers :: "(string \<times> string) list"
  req_body :: string

datatype event =
    ConsoleError string
  | ConsoleLog string
  | GapiLoad string
  | AuthAuthorize string string bool
  | ClientLoad string string
  | ChildrenList string string
  | FilesInsert string string string
  | FilesGet string
  | FilesCopy string string
  | FilesDelete string
  | AboutGet
  | ClientRequest request
  | XhrGet string string

record world =
  entries :: "entry list"
  next_id :: nat
  trace :: "event list"
  listing_picks :: "nat list"
  max_arguments :: nat
  grant_immediate :: bool
  grant_popup :: bool
  client_drive :: bool
  access_token :: string
  about_name :: string
  about_email :: string
  reject_upload :: bool
  xhr_fails :: bool

text \<open>An object with an \<open>id\<close>: a child reference or \<open>{'id': 'root'}\<close>, or a file resource.\<close>

datatype resp = Ref string | Resource entry

fun resp_id :: "resp \<Rightarrow> string" where
  "resp_id (Ref i) = i"
| "resp_id (Resource e) = eid e"

datatype upload_resp = Uploaded entry | UploadError nat

datatype xhr_result = Loaded string | NetError

text \<open>
  What an operation does with its callback: it calls it once with a value, returns
  without calling it, or stops on an exception. Where the callback is optional,
  \<open>Called v\<close> is the point where the code calls it with \<open>v\<close> if it was given; where
  a callback is itself an inner function of fmjs, it is composed in the model.
\<close>

datatype 'a outcome = Called 'a | NoCall | Thrown string

definition log_event :: "event \<Rightarrow> world \<Rightarrow> world" where
  "log_event e w = w\<lparr>trace := trace w @ [e]\<rparr>"

definition folder_mime :: string where
  "folder_mime = ''application/vnd.google-apps.folder''"

definition new_id :: "nat \<Rightarrow> string" where
  "new_id n = CHR ''f'' # replicate n CHR ''x''"

definition download_url :: "string \<Rightarrow> string" where
  "download_url i = ''https://drive.example/download/'' @ i"

definition folder_query :: "string \<Rightarrow> string" where
  "folder_query t = ''mimeType='' @ sq @ folder_mime @ sq @ '' and title='' @ sq @ t @ sq"

definition nonfolder_query :: "string \<Rightarrow> string" where
  "nonfolder_query t = ''mimeType!='' @ sq @ folder_mime @ sq @ '' and title='' @ sq @ t @ sq"

definition matches :: "string \<Rightarrow> string \<Rightarrow> entry \<Rightarrow> bool" where
  "matches folderId q e =
     (folderId \<in> set (parents e)
      \<and> (if mimeType e = folder_mime then q = folder_query (title e)
         else q = nonfolder_query (title e)))"

text \<open>The entries a listing is about, in the order of the store.\<close>

definition matching :: "world \<Rightarrow> string \<Rightarrow> string \<Rightarrow> entry list" where
  "matching w folderId q = filter (matches folderId q) (entries w)"

definition next_pick :: "world \<Rightarrow> nat" where
  "next_pick w = (case listing_picks w of [] \<Rightarrow> 0 | n # _ \<Rightarrow> n)"

text \<open>The answer of a listing, and the service after it: the pick is used up.\<close>

definition children_list :: "world \<Rightarrow> string \<Rightarrow> string \<Rightarrow> resp list \<times> world" where
  "children_list w folderId q =
     (map (\<lambda>e. Ref (eid e)) (rotate (next_pick w) (matching w folderId q)),
      w\<lparr>listing_picks := tl (listing_picks w)\<rparr>)"

definition files_insert :: "world \<Rightarrow> string \<Rightarrow> string \<Rightarrow> string list \<Rightarrow> entry \<times> world" where
  "files_insert w t m ps =
     (let e = \<lparr>eid = new_id (next_id w), title = t, mimeType = m, parents = ps,
               downloadUrl = download_url (new_id (next_id w)), content = []\<rparr>
      in (e, w\<lparr>entries := entries w @ [e], next_id := Suc (next_id w)\<rparr>))"

definition files_get :: "world \<Rightarrow> string \<Rightarrow> entry option" where
  "files_get w i = find (\<lambda>e. eid e = i) (entries w)"

definition files_copy :: "world \<Rightarrow> string \<Rightarrow> string \<Rightarrow> entry option \<times> world" where
  "files_copy w i t =
     (case files_get w i of
        None \<Rightarrow> (None, w)
      | Some src \<Rightarrow>
          (let e = src\<lparr>eid := new_id (next_id w), title := t,
                       downloadUrl := download_url (new_id (next_id w))\<rparr>
           in (Some e, w\<lparr>entries := entries w @ [e], next_id := Suc (next_id w)\<rparr>)))"

definition files_delete :: "world \<Rightarrow> string \<Rightarrow> world" where
  "files_delete w i = w\<lparr>entries := filter (\<lambda>e. eid e \<noteq> i) (entries w)\<rparr>"

definition drive_upload ::
  "world \<Rightarrow> string \<Rightarrow> string \<Rightarrow> string list \<Rightarrow> string \<Rightarrow> upload_resp \<times> world" where
  "drive_upload w t m ps data =
     (if reject_upload w then (UploadError 403, w)
      else (let e = \<lparr>eid = new_id (next_id w), title = t, mimeType = m, parents = ps,
                     downloadUrl = download_url (new_id (next_id w)), content = data\<rparr>
            in (Uploaded e, w\<lparr>entries := entries w @ [e], next_id := Suc (next_id w)\<rparr>)))"

definition xhr_get :: "world \<Rightarrow> string \<Rightarrow> string \<Rightarrow> xhr_result" where
  "xhr_get w url auth =
     (if xhr_fails w then NetError
      else case find (\<lambda>e. downloadUrl e = url) (entries w) of
             None \<Rightarrow> Loaded ''Not Found''
           | Some e \<Rightarrow>
               if auth = ''Bearer '' @ access_token w then Loaded (content e)
               else Loaded ''Unauthorized'')"

definition auth_granted :: "world \<Rightarrow> bool \<Rightarrow> bool" where
  "auth_granted w immediate = (if immediate then grant_immediate w else grant_popup w)"

section \<open>fmjs.GDriveFileManager\<close>

text \<open>
  The constructor writes \<open>autorized\<close>; the methods read and write \<open>authorized\<close>, which
  is \<open>undefined\<close>, hence falsy, until \<open>requestFileSystem\<close> sets it.
\<close>

record gdrive_fm =
  CLIENT_ID :: string
  SCOPES :: string
  clientOAuthAPILoaded :: bool
  autorized :: bool
  authorized :: bool
  driveAPILoaded :: bool
  userInfo :: "userinfo option"

definition GDriveFileManager :: "string \<Rightarrow> gdrive_fm" where
  "GDriveFileManager clientId =
     \<lparr>CLIENT_ID = clientId,
      SCOPES = ''https://www.googleapis.com/auth/drive.file'',
      clientOAuthAPILoaded = False,
      autorized = False,
      authorized = False,
      driveAPILoaded = False,
      userInfo = None\<rparr>"

subsection \<open>requestFileSystem and loadGDriveApi\<close>

definition loadGDriveApi :: "gdrive_fm \<Rightarrow> world \<Rightarrow> bool outcome \<times> gdrive_fm \<times> world" where
  "loadGDriveApi fm w =
     (if authorized fm then
        (if \<not> driveAPILoaded fm then
           (Called True, fm\<lparr>driveAPILoaded := True\<rparr>,
            (log_event (ClientLoad ''drive'' ''v2'') w)\<lparr>client_drive := True\<rparr>)
         else (NoCall, fm, w))
      else (NoCall, fm, log_event (ConsoleError ''The app has not been authorized'') w))"

definition requestFS :: "bool \<Rightarrow> gdrive_fm \<Rightarrow> world \<Rightarrow> bool outcome \<times> gdrive_fm \<times> world" where
  "requestFS immediate fm w =
     (if \<not> authorized fm then
        (let w1 = log_event (AuthAuthorize (CLIENT_ID fm) (SCOPES fm) immediate) w
         in if auth_granted w immediate
            then loadGDriveApi (fm\<lparr>authorized := True\<rparr>) w1
            else (Called False, fm, w1))
      else loadGDriveApi fm w)"

definition requestFileSystem ::
  "bool \<Rightarrow> gdrive_fm \<Rightarrow> world \<Rightarrow> bool outcome \<times> gdrive_fm \<times> world" where
  "requestFileSystem immediate fm w =
     (if clientOAuthAPILoaded fm then requestFS immediate fm w
      else requestFS immediate fm (log_event (GapiLoad ''auth:client'') w))"

subsection \<open>createPath\<close>

text \<open>
  The inner \<open>createFolder\<close> is only entered with a non-empty list: \<open>createPath\<close> tests
  \<open>folders.length\<close> and each recursive call tests it again.
\<close>

fun createFolder :: "world \<Rightarrow> resp \<Rightarrow> string list \<Rightarrow> resp option outcome \<times> world" where
  "createFolder w rootResp (f # rest) =
     (let q = folder_query f;
          findResp = children_list (log_event (ChildrenList (resp_id rootResp) q) w)
                       (resp_id rootResp) q;
          items = fst findResp;
          w1 = snd findResp
      in if length items = 0 then
           (let ins = files_insert
                        (log_event (FilesInsert f folder_mime (resp_id rootResp)) w1)
                        f folder_mime [resp_id rootResp]
            in if length rest \<noteq> 0 then createFolder (snd ins) (Resource (fst ins)) rest
               else (Called (Some (Resource (fst ins))), snd ins))
         else
           (if length rest \<noteq> 0 then createFolder w1 (items ! 0) rest
            else (Called (Some (items ! 0)), w1)))"
| "createFolder w rootResp [] = (Thrown ''unreachable'', w)"

definition createPath :: "gdrive_fm \<Rightarrow> world \<Rightarrow> string \<Rightarrow> resp option outcome \<times> world" where
  "createPath fm w path =
     (if driveAPILoaded fm then
        (let folders = path2array path
         in if length folders \<noteq> 0 then createFolder w (Ref ''root'') folders
            else (Called None, w))
      else (NoCall, log_event (ConsoleError ''GDrive Api not loaded'') w))"

subsection \<open>isFile\<close>

fun findEntry ::
  "string \<Rightarrow> world \<Rightarrow> resp \<Rightarrow> string list \<Rightarrow> entry option outcome \<times> world" where
  "findEntry filePath w rootResp (e # rest) =
     (let q = (if length (e # rest) = 1 then nonfolder_query e else folder_query e);
          findResp = children_list (log_event (ChildrenList (resp_id rootResp) q) w)
                       (resp_id rootResp) q;
          items = fst findResp;
          w1 = snd findResp
      in if length items = 0 then
           (Called None, log_event (ConsoleError (''File '' @ filePath @ '' not found!'')) w1)
         else if length rest \<noteq> 0 then findEntry filePath w1 (items ! 0) rest
         else (let w2 = log_event (FilesGet (resp_id (items ! 0))) w1
               in (Called (files_get w2 (resp_id (items ! 0))), w2)))"
| "findEntry filePath w rootResp [] = (Thrown ''unreachable'', w)"

definition isFile :: "gdrive_fm \<Rightarrow> world \<Rightarrow> string \<Rightarrow> entry option outcome \<times> world" where
  "isFile fm w filePath =
     (if driveAPILoaded fm then
        (let entries = path2array filePath
         in if length entries \<noteq> 0 then findEntry filePath w (Ref ''root'') entries
            else (Called None, w))
      else (NoCall, log_event (ConsoleError ''GDrive Api not loaded'') w))"

subsection \<open>readFile and readFileByID\<close>

text \<open>
  A method call \<open>this.m(filePath, cb)\<close> looks the name \<open>m\<close> up on the object and its
  prototype chain, and the lookup is case sensitive. Of the methods with a path and a
  record callback the chain holds \<open>isFile\<close>; calling a name that is not there is a
  TypeError.
\<close>

definition gdrive_method ::
  "string \<Rightarrow> (gdrive_fm \<Rightarrow> world \<Rightarrow> string \<Rightarrow> entry option outcome \<times> world) option" where
  "gdrive_method m = (if m = ''isFile'' then Some isFile else None)"

definition readFile ::
  "gdrive_fm \<Rightarrow> world \<Rightarrow> string \<Rightarrow> byte list option outcome \<times> world" where
  "readFile fm w filePath =
     (case gdrive_method ''isfile'' of
        None \<Rightarrow> (Thrown ''TypeError: this.isfile is not a function'', w)
      | Some isfile \<Rightarrow>
          (case isfile fm w filePath of
             (Called (Some fileResp), w1) \<Rightarrow>
               (let accessToken = access_token w1;
                    auth = ''Bearer '' @ accessToken;
                    w2 = log_event (XhrGet (downloadUrl fileResp) auth) w1
                in case xhr_get w2 (downloadUrl fileResp) auth of
                     Loaded responseText \<Rightarrow>
                       (case atob responseText of
                          None \<Rightarrow> (Thrown ''InvalidCharacterError'', w2)
                        | Some decoded \<Rightarrow> (Called (Some (str2ab decoded)), w2))
                   | NetError \<Rightarrow>
                       (Called None,
                        log_event (ConsoleLog (''Could not read file: '' @ title fileResp
                                     @ '' with id: '' @ eid fileResp)) w2))
           | (Called None, w1) \<Rightarrow> (Called None, w1)
           | (NoCall, w1) \<Rightarrow> (NoCall, w1)
           | (Thrown err, w1) \<Rightarrow> (Thrown err, w1)))"

definition readFileByID ::
  "gdrive_fm \<Rightarrow> world \<Rightarrow> string \<Rightarrow> byte list option outcome \<times> world" where
  "readFileByID fm w fileID =
     (if driveAPILoaded fm then
        (let cp = files_copy (log_event (FilesCopy fileID ''tempGDriveFile.tmp'') w)
                    fileID ''tempGDriveFile.tmp''
         in case readFile fm (snd cp) ''tempGDriveFile.tmp'' of
              (Called dataResp, w2) \<Rightarrow>
                (case fst cp of
                   Some copyResp \<Rightarrow>
                     (Called dataResp,
                      log_event (ConsoleLog ''delResp'')
                        (files_delete (log_event (FilesDelete (eid copyResp)) w2)
                           (eid copyResp)))
                 | None \<Rightarrow>
                     (Called dataResp,
                      log_event (ConsoleLog ''delResp'')
                        (log_event (FilesDelete ''undefined'') w2)))
            | (NoCall, w2) \<Rightarrow> (NoCall, w2)
            | (Thrown err, w2) \<Rightarrow> (Thrown err, w2))
      else (NoCall, log_event (ConsoleError ''GDrive Api not loaded'') w))"

subsection \<open>writeFile\<close>

text \<open>
  \<open>fileData\<close> is an ArrayBuffer, or a File with a \<open>type\<close> and a \<open>name\<close>; \<open>fd_bytes\<close> is
  what \<open>new Uint8Array(fileData)\<close> holds. The inner function reads \<open>baseDirResp.id\<close>
  for the metadata first and converts the payload after that, so a \<open>null\<close> parent is a
  TypeError on any payload, and a payload with more bytes than a call may have
  arguments is a RangeError once the folders are there.
\<close>

record file_data =
  fd_type :: "string option"
  fd_name :: "string option"
  fd_bytes :: "byte list"

definition boundary :: string where
  "boundary = ''-------314159265358979323846''"

definition writeFile_inner ::
  "string \<Rightarrow> file_data \<Rightarrow> world \<Rightarrow> resp option \<Rightarrow> upload_resp option outcome \<times> world" where
  "writeFile_inner filePath fileData w baseDirResp =
     (let delimiter = CRLF @ ''--'' @ boundary @ CRLF;
          close_delim = CRLF @ ''--'' @ boundary @ ''--'';
          contentType = js_or (fd_type fileData) ''application/octet-stream'';
          name = js_or (fd_name fileData)
                   (substring_from filePath (lastIndexOf filePath CHR ''/'' + 1))
      in case baseDirResp of
           None \<Rightarrow> (Thrown ''TypeError: Cannot read property id of null'', w)
         | Some dir \<Rightarrow>
             (let metadata = JObject
                    [(''title'', JString name),
                     (''mimeType'', JString contentType),
                     (''parents'', JArray [JObject [(''id'', JString (resp_id dir))]])]
              in case ab2str (max_arguments w) (fd_bytes fileData) of
                   None \<Rightarrow> (Thrown ''RangeError: too many arguments in a call'', w)
                 | Some str \<Rightarrow>
                (case btoa str of
                   None \<Rightarrow> (Thrown ''InvalidCharacterError'', w)
                 | Some base64Data \<Rightarrow>
                     (let multipartRequestBody =
                            delimiter @
                            ''Content-Type: application/json'' @ CRLF @ CRLF @
                            JSON_stringify metadata @
                            delimiter @
                            ''Content-Type: '' @ contentType @ CRLF @
                            ''Content-Transfer-Encoding: base64'' @ CRLF @
                            CRLF @
                            base64Data @
                            close_delim;
                          request =
                            \<lparr>req_path = ''/upload/drive/v2/files'',
                             req_method = ''POST'',
                             req_params = [(''uploadType'', ''multipart'')],
                             req_headers =
                               [(''Content-Type'',
                                 ''multipart/mixed; boundary='' @ dq @ boundary @ dq)],
                             req_body = multipartRequestBody\<rparr>;
                          up = drive_upload (log_event (ClientRequest request) w)
                                 name contentType [resp_id dir] base64Data
                      in (Called (Some (fst up)), snd up)))))"

definition writeFile ::
  "gdrive_fm \<Rightarrow> world \<Rightarrow> string \<Rightarrow> file_data \<Rightarrow> upload_resp option outcome \<times> world" where
  "writeFile fm w filePath fileData =
     (let basedir = substring filePath 0 (lastIndexOf filePath CHR ''/'')
      in case createPath fm w basedir of
           (Called baseDirResp, w1) \<Rightarrow> writeFile_inner filePath fileData w1 baseDirResp
         | (NoCall, w1) \<Rightarrow> (NoCall, w1)
         | (Thrown err, w1) \<Rightarrow> (Thrown err, w1))"

subsection \<open>getUserInfo\<close>

text \<open>
  \<open>gapi.client.drive\<close> exists once \<open>gapi.client.load('drive', 'v2', ...)\<close> has
  completed; before that, reading \<open>about\<close> from it is a TypeError.
\<close>

definition getUserInfo :: "gdrive_fm \<Rightarrow> world \<Rightarrow> userinfo outcome \<times> gdrive_fm \<times> world" where
  "getUserInfo fm w =
     (case userInfo fm of
        Some cached \<Rightarrow> (Called cached, fm, w)
      | None \<Rightarrow>
          (if client_drive w then
             (let w1 = log_event AboutGet w;
                  userDataObj = \<lparr>name = about_name w1, emailAddress = about_email w1\<rparr>
              in (Called userDataObj, fm\<lparr>userInfo := Some userDataObj\<rparr>, w1))
           else (Thrown ''TypeError: Cannot read property about of undefined'', fm, w)))"

section \<open>fmjs.LocalFileManager\<close>

text \<open>
  The sandboxed file system belongs to the browser; its operations are parameters of
  the model, each answering with an error code or a result and the next state of the
  sandbox. \<open>window.requestFileSystem\<close> hands over a FileSystem object, whose \<open>root\<close> is
  the directory entry of the root directory; \<open>getDirectory\<close> and \<open>getFile\<close> are methods
  of a directory entry, as the source says where it walks the path (\<open>fs.root is a
  DirectoryEntry\<close>) and as \<open>isFile\<close>, \<open>readFile\<close> and the inner \<open>writeFile\<close> use
  them (\<open>self.fs.root.getFile\<close>). Calling a method that an object does not have is a
  TypeError.
\<close>

datatype 'd fs_object = FileSystem 'd | DirectoryEntry 'd

fun directory_methods :: "'d fs_object \<Rightarrow> 'd option" where
  "directory_methods (FileSystem root) = None"
| "directory_methods (DirectoryEntry d) = Some d"

fun root_of :: "'d fs_object \<Rightarrow> 'd option" where
  "root_of (FileSystem root) = Some root"
| "root_of (DirectoryEntry d) = None"

record ('s, 'd, 'e, 'o) sandbox_api =
  requestFileSystem_api :: "'s \<Rightarrow> (nat + 'd) option"
  getDirectory_api :: "'s \<Rightarrow> 'd \<Rightarrow> string \<Rightarrow> bool \<Rightarrow> (nat + 'd) \<times> 's"
  getFile_api :: "'s \<Rightarrow> 'd \<Rightarrow> string \<Rightarrow> bool \<Rightarrow> (nat + 'e) \<times> 's"
  createWriter_api :: "'s \<Rightarrow> 'e \<Rightarrow> nat option"
  write_api :: "'s \<Rightarrow> 'e \<Rightarrow> byte list \<Rightarrow> nat option \<times> 's"
  file_api :: "'s \<Rightarrow> 'e \<Rightarrow> nat + 'o"

record ('s, 'd) local_state =
  fs :: "'d fs_object option"
  sandbox :: 's
  console :: "(string \<times> nat) list"

definition NOT_FOUND_ERR :: nat where
  "NOT_FOUND_ERR = 1"

definition console_log :: "string \<Rightarrow> nat \<Rightarrow> ('s, 'd) local_state \<Rightarrow> ('s, 'd) local_state" where
  "console_log msg code st = st\<lparr>console := console st @ [(msg, code)]\<rparr>"

text \<open>
  \<open>LocalFileManager.prototype.requestFileSystem\<close>, composed with the continuation it
  is given: without \<open>window.requestFileSystem\<close> nothing happens, a refusal throws.
\<close>

definition local_requestFileSystem ::
  "('s, 'd, 'e, 'o) sandbox_api \<Rightarrow> ('s, 'd) local_state
   \<Rightarrow> (('s, 'd) local_state \<Rightarrow> 'a outcome \<times> ('s, 'd) local_state)
   \<Rightarrow> 'a outcome \<times> ('s, 'd) local_state" where
  "local_requestFileSystem api st callback =
     (case requestFileSystem_api api (sandbox st) of
        None \<Rightarrow> (NoCall, st)
      | Some (Inl code) \<Rightarrow> (Thrown ''Could not grant filesystem'', st)
      | Some (Inr root) \<Rightarrow> callback (st\<lparr>fs := Some (FileSystem root)\<rparr>))"

text \<open>
  The local \<open>createPath\<close> does not test \<open>folders.length\<close> before the first call of
  \<open>createFolder\<close>; with no segment \<open>folders[0]\<close> is \<open>undefined\<close>, which the method
  receives as the text \<open>undefined\<close>.
\<close>

fun local_createFolder ::
  "('s, 'd, 'e, 'o) sandbox_api \<Rightarrow> ('s, 'd) local_state \<Rightarrow> 'd fs_object \<Rightarrow> string list
   \<Rightarrow> 'd option outcome \<times> ('s, 'd) local_state" where
  "local_createFolder api st rootDirEntry (f # rest) =
     (case directory_methods rootDirEntry of
        None \<Rightarrow> (Thrown ''TypeError: rootDirEntry.getDirectory is not a function'', st)
      | Some dir \<Rightarrow>
          (case getDirectory_api api (sandbox st) dir f True of
             (Inr dirEntry, s1) \<Rightarrow>
               (if length rest \<noteq> 0
                then local_createFolder api (st\<lparr>sandbox := s1\<rparr>) (DirectoryEntry dirEntry) rest
                else (Called (Some dirEntry), st\<lparr>sandbox := s1\<rparr>))
           | (Inl code, s1) \<Rightarrow>
               (Called None,
                console_log ''Could not create path. Error code: '' code (st\<lparr>sandbox := s1\<rparr>))))"
| "local_createFolder api st rootDirEntry [] =
     (case directory_methods rootDirEntry of
        None \<Rightarrow> (Thrown ''TypeError: rootDirEntry.getDirectory is not a function'', st)
      | Some dir \<Rightarrow>
          (case getDirectory_api api (sandbox st) dir ''undefined'' True of
             (Inr dirEntry, s1) \<Rightarrow> (Called (Some dirEntry), st\<lparr>sandbox := s1\<rparr>)
           | (Inl code, s1) \<Rightarrow>
               (Called None,
                console_log ''Could not create path. Error code: '' code (st\<lparr>sandbox := s1\<rparr>))))"

definition local_createPath_inner ::
  "('s, 'd, 'e, 'o) sandbox_api \<Rightarrow> string \<Rightarrow> ('s, 'd) local_state
   \<Rightarrow> 'd option outcome \<times> ('s, 'd) local_state" where
  "local_createPath_inner api path st =
     (let folders = path2array path
      in case fs st of
           None \<Rightarrow> (Thrown ''TypeError: self.fs is null'', st)
         | Some self_fs \<Rightarrow> local_createFolder api st self_fs folders)"

definition local_createPath ::
  "('s, 'd, 'e, 'o) sandbox_api \<Rightarrow> ('s, 'd) local_state \<Rightarrow> string
   \<Rightarrow> 'd option outcome \<times> ('s, 'd) local_state" where
  "local_createPath api st path =
     (if fs st \<noteq> None then local_createPath_inner api path st
      else local_requestFileSystem api st (local_createPath_inner api path))"

text \<open>The inner \<open>writeFile\<close> of \<open>LocalFileManager.prototype.writeFile\<close>.\<close>

definition local_writeFile_inner ::
  "('s, 'd, 'e, 'o) sandbox_api \<Rightarrow> string \<Rightarrow> byte list \<Rightarrow> ('s, 'd) local_state
   \<Rightarrow> 'o option outcome \<times> ('s, 'd) local_state" where
  "local_writeFile_inner api filePath fileData st =
     (case Option.bind (fs st) root_of of
        None \<Rightarrow> (Thrown ''TypeError: self.fs.root'', st)
      | Some root \<Rightarrow>
          (case getFile_api api (sandbox st) root filePath True of
             (Inl code, s1) \<Rightarrow>
               (Called None,
                console_log ''Could not write file. Error code: '' code (st\<lparr>sandbox := s1\<rparr>))
           | (Inr fileEntry, s1) \<Rightarrow>
               (case createWriter_api api s1 fileEntry of
                  Some code \<Rightarrow>
                    (Called None,
                     console_log ''Could not write file. Error code: '' code (st\<lparr>sandbox := s1\<rparr>))
                | None \<Rightarrow>
                    (case write_api api s1 fileEntry fileData of
                       (Some code, s2) \<Rightarrow>
                         (Called None,
                          console_log ''Could not write file. Error code: '' code
                            (st\<lparr>sandbox := s2\<rparr>))
                     | (None, s2) \<Rightarrow>
                         (case file_api api s2 fileEntry of
                            Inr fileObj \<Rightarrow> (Called (Some fileObj), st\<lparr>sandbox := s2\<rparr>)
                          | Inl code \<Rightarrow>
                              (Called None,
                               console_log ''Could not write file. Error code: '' code
                                 (st\<lparr>sandbox := s2\<rparr>)))))))"

definition checkPathAndWriteFile ::
  "('s, 'd, 'e, 'o) sandbox_api \<Rightarrow> string \<Rightarrow> byte list \<Rightarrow> ('s, 'd) local_state
   \<Rightarrow> 'o option outcome \<times> ('s, 'd) local_state" where
  "checkPathAndWriteFile api filePath fileData st =
     (let basedir = substring filePath 0 (lastIndexOf filePath CHR ''/'')
      in case Option.bind (fs st) directory_methods of
           None \<Rightarrow> (Thrown ''TypeError: self.fs.getDirectory is not a function'', st)
         | Some dir \<Rightarrow>
             (case getDirectory_api api (sandbox st) dir basedir False of
                (Inr found, s1) \<Rightarrow> local_writeFile_inner api filePath fileData (st\<lparr>sandbox := s1\<rparr>)
              | (Inl code, s1) \<Rightarrow>
                  (if code = NOT_FOUND_ERR then
                     (case local_createPath api (st\<lparr>sandbox := s1\<rparr>) basedir of
                        (Called dirEntry, st1) \<Rightarrow> local_writeFile_inner api filePath fileData st1
                      | (NoCall, st1) \<Rightarrow> (NoCall, st1)
                      | (Thrown err, st1) \<Rightarrow> (Thrown err, st1))
                   else (Called None,
                         console_log ''Could not write file. Error code: '' code
                           (st\<lparr>sandbox := s1\<rparr>)))))"

definition local_writeFile ::
  "('s, 'd, 'e, 'o) sandbox_api \<Rightarrow> ('s, 'd) local_state \<Rightarrow> string \<Rightarrow> byte list
   \<Rightarrow> 'o option outcome \<times> ('s, 'd) local_state" where
  "local_writeFile api st filePath fileData =
     (if fs st \<noteq> None then checkPathAndWriteFile api filePath fileData st
      else local_requestFileSystem api st (checkPathAndWriteFile api filePath fileData))"

text \<open>The file system object of a manager is what \<open>requestFileSystem\<close> stored.\<close>

definition fs_is_FileSystem :: "('s, 'd) local_state \<Rightarrow> bool" where
  "fs_is_FileSystem st = (case fs st of None \<Rightarrow> True | Some (FileSystem r) \<Rightarrow> True | Some (DirectoryEntry d) \<Rightarrow> False)"

section \<open>Notions used to state the properties\<close>

text \<open>
  A folder at the end of a segment sequence: a chain of matching folders, one for each
  segment, leads from the root to it. This does not depend on the order of a listing.
\<close>

fun reaches :: "world \<Rightarrow> string \<Rightarrow> string list \<Rightarrow> string \<Rightarrow> bool" where
  "reaches w root [] target = (root = target)"
| "reaches w root (f # rest) target =
     list_ex (\<lambda>e. reaches w (eid e) rest target) (matching w root (folder_query f))"

text \<open>
  The folder of a segment sequence that has, at each level, a single folder of the
  segment's name; \<open>None\<close> where a level has none or several.
\<close>

fun single_path :: "world \<Rightarrow> string \<Rightarrow> string list \<Rightarrow> string option" where
  "single_path w root [] = Some root"
| "single_path w root (f # rest) =
     (case matching w root (folder_query f) of
        [e] \<Rightarrow> single_path w (eid e) rest
      | _ \<Rightarrow> None)"

fun is_ChildrenList :: "event \<Rightarrow> bool" where
  "is_ChildrenList (ChildrenList _ _) = True"
| "is_ChildrenList _ = False"

fun is_folder_event :: "event \<Rightarrow> bool" where
  "is_folder_event (ChildrenList _ _) = True"
| "is_folder_event (FilesInsert _ _ _) = True"
| "is_folder_event _ = False"

fun is_ClientRequest :: "event \<Rightarrow> bool" where
  "is_ClientRequest (ClientRequest _) = True"
| "is_ClientRequest _ = False"

text \<open>The multipart wire format in the words of the specification.\<close>

definition multipart_wire_format :: "string \<Rightarrow> string \<Rightarrow> string \<Rightarrow> string \<Rightarrow> string" where
  "multipart_wire_format bd metadata_json mime base64_bytes =
     CRLF @ ''--'' @ bd @ CRLF @
     ''Content-Type: application/json'' @ CRLF @ CRLF @
     metadata_json @
     CRLF @ ''--'' @ bd @ CRLF @
     ''Content-Type: '' @ mime @ CRLF @
     ''Content-Transfer-Encoding: base64'' @ CRLF @ CRLF @
     base64_bytes @
     CRLF @ ''--'' @ bd @ ''--''"

text \<open>The request of an upload, as the inner \<open>writeFile\<close> builds it.\<close>

definition upload_request :: "string \<Rightarrow> file_data \<Rightarrow> resp \<Rightarrow> request" where
  "upload_request filePath fileData dir =
     \<lparr>req_path = ''/upload/drive/v2/files'',
      req_method = ''POST'',
      req_params = [(''uploadType'', ''multipart'')],
      req_headers = [(''Content-Type'', ''multipart/mixed; boundary='' @ dq @ boundary @ dq)],
      req_body =
        multipart_wire_format boundary
          (JSON_stringify (JObject
             [(''title'', JString (js_or (fd_name fileData)
                  (substring_from filePath (lastIndexOf filePath CHR ''/'' + 1)))),
              (''mimeType'', JString (js_or (fd_type fileData) ''application/octet-stream'')),
              (''parents'', JArray [JObject [(''id'', JString (resp_id dir))]])]))
          (js_or (fd_type fileData) ''application/octet-stream'')
          (base64_encode (map unat (fd_bytes fileData)))\<rparr>"

subsection \<open>Concrete states for the examples\<close>

text \<open>
  An engine that allows 125000 arguments in a call, and a service that answers its
  next listings in the order of the store.
\<close>

definition empty_drive :: world where
  "empty_drive =
     \<lparr>entries = [], next_id = 0, trace = [], listing_picks = [], max_arguments = 125000,
      grant_immediate = False, grant_popup = True, client_drive = True,
      access_token = ''token'', about_name = ''Ann'', about_email = ''ann@example.org'',
      reject_upload = False, xhr_fails = False\<rparr>"

definition rejecting_drive :: world where
  "rejecting_drive = empty_drive\<lparr>reject_upload := True\<rparr>"

definition one_file_drive :: world where
  "one_file_drive = empty_drive
     \<lparr>entries := [\<lparr>eid = ''f'', title = ''a.bin'', mimeType = ''application/octet-stream'',
                   parents = [''root''], downloadUrl = download_url ''f'', content = ''AQID''\<rparr>],
      next_id := 1\<rparr>"

text \<open>
  Two folders named \<open>app\<close> in the root; the service answers the first two listings
  in the order of the store and the third with the second match first.
\<close>

definition two_apps_drive :: world where
  "two_apps_drive = empty_drive
     \<lparr>entries := [\<lparr>eid = ''f'', title = ''app'', mimeType = folder_mime,
                   parents = [''root''], downloadUrl = download_url ''f'', content = []\<rparr>,
                  \<lparr>eid = ''fx'', title = ''app'', mimeType = folder_mime,
                   parents = [''root''], downloadUrl = download_url ''fx'', content = []\<rparr>],
      next_id := 2,
      listing_picks := [0, 0, 1]\<rparr>"

definition ready_fm :: gdrive_fm where
  "ready_fm = (GDriveFileManager ''client'')\<lparr>authorized := True, driveAPILoaded := True\<rparr>"

definition three_bytes :: file_data where
  "three_bytes = \<lparr>fd_type = None, fd_name = None, fd_bytes = [1, 2, 3]\<rparr>"

definition named_bytes :: file_data where
  "named_bytes = \<lparr>fd_type = Some ''text/plain'', fd_name = Some ''n.txt'', fd_bytes = [1, 2, 3]\<rparr>"

definition large_payload :: file_data where
  "large_payload = \<lparr>fd_type = None, fd_name = None, fd_bytes = replicate 130000 0\<rparr>"

section \<open>Properties of the path utility\<close>

lemma split_js_nonempty: "split_js sep s \<noteq> []"
  by (induction s) auto

lemma split_js_no_sep: "x \<in> set (split_js sep s) \<Longrightarrow> sep \<notin> set x"
proof (induction s arbitrary: x)
  case Nil
  then show ?case by simp
next
  case (Cons c cs)
  obtain h t where ht: "split_js sep cs = h # t"
    using split_js_nonempty [of sep cs] by (cases "split_js sep cs") auto
  show ?case
  proof (cases "c = sep")
    case True
    with Cons show ?thesis by auto
  next
    case False
    with Cons.prems ht have "x = c # h \<or> x \<in> set t" by auto
    then show ?thesis
      using Cons.IH [of h] Cons.IH [of x] ht False by auto
  qed
qed

lemma join_slash_Cons:
  "ys \<noteq> [] \<Longrightarrow> join_slash (x # ys) = x @ CHR ''/'' # join_slash ys"
  by (cases ys) auto

lemma join_slash_split: "join_slash (split_js CHR ''/'' s) = s"
proof (induction s)
  case Nil
  then show ?case by simp
next
  case (Cons c cs)
  obtain h t where ht: "split_js CHR ''/'' cs = h # t"
    using split_js_nonempty [of "CHR ''/''" cs] by (cases "split_js CHR ''/'' cs") auto
  show ?case
  proof (cases "c = CHR ''/''")
    case True
    then show ?thesis
      using Cons.IH split_js_nonempty [of "CHR ''/''" cs] by (simp add: join_slash_Cons)
  next
    case False
    then show ?thesis
      using Cons.IH ht by (cases t) auto
  qed
qed

lemma path2array_eq_spec: "path2array p = pathToSegments p"
proof -
  obtain h t where ht: "split_js CHR ''/'' p = h # t"
    using split_js_nonempty [of "CHR ''/''" p] by (cases "split_js CHR ''/'' p") auto
  then show ?thesis
    by (auto simp: path2array_def pathToSegments_def js_index_def slice_from_def Let_def)
qed

text \<open>
  C2. For every string \<open>p\<close>, \<open>path2array p\<close> is the split of \<open>p\<close> on the slash with
  exactly the first piece removed when that piece is empty or a dot; the other pieces
  are kept in order, empty ones included. The split itself is the one whose pieces
  hold no slash and give \<open>p\<close> back when joined with slashes. The two examples of the
  specification and a path with a double slash are evaluated.
\<close>

theorem path2array_drops_one_leading_segment:
  "(\<exists>s rest. split_js CHR ''/'' p = s # rest
      \<and> join_slash (s # rest) = p
      \<and> list_all (\<lambda>x. CHR ''/'' \<notin> set x) (s # rest)
      \<and> path2array p = (if s = '''' \<or> s = ''.'' then rest else s # rest))
   \<and> path2array p = pathToSegments p
   \<and> path2array ''/a/b/c'' = [''a'', ''b'', ''c'']
   \<and> path2array ''a/b'' = [''a'', ''b'']
   \<and> path2array ''/a//b'' = [''a'', '''', ''b'']"
proof -
  obtain h t where ht: "split_js CHR ''/'' p = h # t"
    using split_js_nonempty [of "CHR ''/''" p] by (cases "split_js CHR ''/'' p") auto
  have j: "join_slash (h # t) = p"
    using join_slash_split [of p] ht by simp
  have n: "list_all (\<lambda>x. CHR ''/'' \<notin> set x) (h # t)"
    unfolding list_all_iff using split_js_no_sep [of _ "CHR ''/''" p] ht by metis
  have e: "path2array p = (if h = '''' \<or> h = ''.'' then t else h # t)"
    using ht by (auto simp: path2array_def js_index_def slice_from_def Let_def)
  have x1: "path2array ''/a/b/c'' = [''a'', ''b'', ''c'']"
    by (simp add: path2array_def js_index_def slice_from_def)
  have x2: "path2array ''a/b'' = [''a'', ''b'']"
    by (simp add: path2array_def js_index_def slice_from_def)
  have x3: "path2array ''/a//b'' = [''a'', '''', ''b'']"
    by (simp add: path2array_def js_index_def slice_from_def)
  show ?thesis
    using ht j n e x1 x2 x3 path2array_eq_spec [of p] by blast
qed

theorem path2array_drops_one_leading_segment_witness:
  "path2array ''./x/y'' = [''x'', ''y''] \<and> pathToSegments ''./x/y'' = [''x'', ''y'']"
proof -
  have "path2array ''./x/y'' = pathToSegments ''./x/y''"
    using path2array_drops_one_leading_segment [of "''./x/y''"] by blast
  moreover have "path2array ''./x/y'' = [''x'', ''y'']"
    by (simp add: path2array_def js_index_def slice_from_def)
  ultimately show ?thesis by simp
qed

section \<open>Properties of the buffer conversions\<close>



lemma unat_fromCharCode_byte: "unat (fromCharCode (unat (x :: byte))) = unat x"
proof -
  have "unat x < 2 ^ 8" using unsigned_less [of x] by simp
  then have "unat x < 2 ^ 16" by simp
  then have "unat x mod 2 ^ 16 = unat x" by simp
  then show ?thesis
    unfolding fromCharCode_def by (simp only: unat_of_nat len_of_numeral_defs) simp
qed



lemma ab2str_within:
  "length b \<le> max_args \<Longrightarrow> ab2str max_args b = Some (map (\<lambda>x. fromCharCode (unat x)) b)"
  by (simp add: ab2str_def fromCharCode_apply_def comp_def)

lemma ab2str_beyond: "max_args < length b \<Longrightarrow> ab2str max_args b = None"
  by (simp add: ab2str_def fromCharCode_apply_def)

lemma unat_ab2str_chars: "map unat (map (\<lambda>x. fromCharCode (unat x)) b) = map unat (b :: byte list)"
  unfolding map_map comp_def unat_fromCharCode_byte ..




section \<open>Properties of the drive model\<close>

lemma log_event_fields [simp]:
  "entries (log_event e w) = entries w"
  "next_id (log_event e w) = next_id w"
  "trace (log_event e w) = trace w @ [e]"
  "reject_upload (log_event e w) = reject_upload w"
  "max_arguments (log_event e w) = max_arguments w"
  "listing_picks (log_event e w) = listing_picks w"
  by (simp_all add: log_event_def)

lemma children_list_fields [simp]:
  "entries (snd (children_list w i q)) = entries w"
  "next_id (snd (children_list w i q)) = next_id w"
  "trace (snd (children_list w i q)) = trace w"
  "reject_upload (snd (children_list w i q)) = reject_upload w"
  "max_arguments (snd (children_list w i q)) = max_arguments w"
  by (simp_all add: children_list_def)

lemma matching_entries:
  "entries w' = entries w \<Longrightarrow> matching w' i q = matching w i q"
  by (simp add: matching_def)

lemma matching_append:
  "entries w' = entries w @ new \<Longrightarrow>
   matching w' i q = matching w i q @ filter (matches i q) new"
  by (simp add: matching_def)

lemma children_list_empty:
  "fst (children_list w i q) = [] \<longleftrightarrow> matching w i q = []"
  by (simp add: children_list_def)

text \<open>The first answer of a listing is one of the matching entries.\<close>

lemma children_list_first:
  assumes "fst (children_list w i q) \<noteq> []"
  shows "\<exists>e \<in> set (matching w i q). fst (children_list w i q) ! 0 = Ref (eid e)"
proof -
  let ?r = "rotate (next_pick w) (matching w i q)"
  have ne: "?r \<noteq> []" using assms by (simp add: children_list_def)
  then have "0 < length ?r" by simp
  then have "?r ! 0 \<in> set ?r" by (rule nth_mem)
  then have "?r ! 0 \<in> set (matching w i q)" by (simp only: set_rotate)
  moreover have "fst (children_list w i q) ! 0 = Ref (eid (?r ! 0))"
    using ne by (simp add: children_list_def)
  ultimately show ?thesis by blast
qed

lemma children_list_single:
  "matching w i q = [e] \<Longrightarrow> fst (children_list w i q) = [Ref (eid e)]"
  by (simp add: children_list_def rotate_length01)

lemma reaches_entries:
  "entries w' = entries w \<Longrightarrow> reaches w' r segs t = reaches w r segs t"
  by (induction segs arbitrary: r) (simp_all add: matching_entries [of w' w])

lemma single_path_entries:
  "entries w' = entries w \<Longrightarrow> single_path w' r segs = single_path w r segs"
  by (induction segs arbitrary: r)
    (simp_all add: matching_entries [of w' w] split: list.splits)

lemma reaches_single_path:
  "single_path w r segs = Some i \<Longrightarrow> reaches w r segs t \<Longrightarrow> t = i"
proof (induction segs arbitrary: r)
  case Nil
  then show ?case by simp
next
  case (Cons f rest)
  from Cons.prems(1) obtain e where
    m: "matching w r (folder_query f) = [e]" and s: "single_path w (eid e) rest = Some i"
    by (auto split: list.splits)
  from Cons.prems(2) m have "reaches w (eid e) rest t" by simp
  with s show ?case by (rule Cons.IH)
qed

lemma files_insert_fields [simp]:
  "entries (snd (files_insert w t m ps)) = entries w @ [fst (files_insert w t m ps)]"
  "trace (snd (files_insert w t m ps)) = trace w"
  "reject_upload (snd (files_insert w t m ps)) = reject_upload w"
  "max_arguments (snd (files_insert w t m ps)) = max_arguments w"
  by (simp_all add: files_insert_def Let_def)

lemma drive_upload_trace [simp]: "trace (snd (drive_upload w t m ps data)) = trace w"
  by (simp add: drive_upload_def Let_def)

lemma drive_upload_result:
  "drive_upload w t m ps data =
     (if reject_upload w then (UploadError 403, w)
      else (Uploaded \<lparr>eid = new_id (next_id w), title = t, mimeType = m, parents = ps,
                      downloadUrl = download_url (new_id (next_id w)), content = data\<rparr>,
            w\<lparr>entries := entries w @
                 [\<lparr>eid = new_id (next_id w), title = t, mimeType = m, parents = ps,
                   downloadUrl = download_url (new_id (next_id w)), content = data\<rparr>],
              next_id := Suc (next_id w)\<rparr>))"
  by (simp add: drive_upload_def Let_def)

section \<open>Properties of createPath\<close>

text \<open>The two branches of \<open>createFolder\<close>: the listing has an answer, or it has none.\<close>

lemma createFolder_found:
  assumes "matching w (resp_id r) (folder_query f) \<noteq> []"
  shows "createFolder w r (f # rest) =
     (if rest \<noteq> []
      then createFolder
             (snd (children_list (log_event (ChildrenList (resp_id r) (folder_query f)) w)
                     (resp_id r) (folder_query f)))
             (fst (children_list (log_event (ChildrenList (resp_id r) (folder_query f)) w)
                     (resp_id r) (folder_query f)) ! 0)
             rest
      else (Called (Some (fst (children_list
                (log_event (ChildrenList (resp_id r) (folder_query f)) w)
                (resp_id r) (folder_query f)) ! 0)),
            snd (children_list (log_event (ChildrenList (resp_id r) (folder_query f)) w)
                   (resp_id r) (folder_query f))))"
proof -
  have "fst (children_list (log_event (ChildrenList (resp_id r) (folder_query f)) w)
               (resp_id r) (folder_query f)) \<noteq> []"
    using assms by (simp add: children_list_empty matching_entries [of "log_event _ w" w])
  then show ?thesis by (simp add: Let_def)
qed

lemma createFolder_missing:
  assumes "matching w (resp_id r) (folder_query f) = []"
  shows "createFolder w r (f # rest) =
     (if rest \<noteq> []
      then createFolder
             (snd (files_insert (log_event (FilesInsert f folder_mime (resp_id r))
                (snd (children_list (log_event (ChildrenList (resp_id r) (folder_query f)) w)
                        (resp_id r) (folder_query f))))
                f folder_mime [resp_id r]))
             (Resource (fst (files_insert (log_event (FilesInsert f folder_mime (resp_id r))
                (snd (children_list (log_event (ChildrenList (resp_id r) (folder_query f)) w)
                        (resp_id r) (folder_query f))))
                f folder_mime [resp_id r])))
             rest
      else (Called (Some (Resource (fst (files_insert
                (log_event (FilesInsert f folder_mime (resp_id r))
                (snd (children_list (log_event (ChildrenList (resp_id r) (folder_query f)) w)
                        (resp_id r) (folder_query f))))
                f folder_mime [resp_id r])))),
            snd (files_insert (log_event (FilesInsert f folder_mime (resp_id r))
                (snd (children_list (log_event (ChildrenList (resp_id r) (folder_query f)) w)
                        (resp_id r) (folder_query f))))
                f folder_mime [resp_id r])))"
proof -
  have "fst (children_list (log_event (ChildrenList (resp_id r) (folder_query f)) w)
               (resp_id r) (folder_query f)) = []"
    using assms by (simp add: children_list_empty matching_entries [of "log_event _ w" w])
  then show ?thesis by (simp add: Let_def)
qed

declare createFolder.simps(1) [simp del]

text \<open>
  \<open>createFolder\<close> only adds entries to the store, issues listings and insertions
  only, and leaves the limits of the engine and of the service as they are.
\<close>

lemma createFolder_frame:
  "(\<exists>new. entries (snd (createFolder w r segs)) = entries w @ new)
   \<and> reject_upload (snd (createFolder w r segs)) = reject_upload w
   \<and> max_arguments (snd (createFolder w r segs)) = max_arguments w
   \<and> (\<exists>evs. trace (snd (createFolder w r segs)) = trace w @ evs \<and> list_all is_folder_event evs)"
proof (induction segs arbitrary: w r)
  case Nil
  then show ?case by simp
next
  case (Cons f rest)
  let ?q = "folder_query f"
  let ?l = "children_list (log_event (ChildrenList (resp_id r) ?q) w) (resp_id r) ?q"
  let ?w1 = "snd ?l"
  have t1: "trace ?w1 = trace w @ [ChildrenList (resp_id r) ?q]" by simp
  show ?case
  proof (cases "matching w (resp_id r) ?q = []")
    case False
    show ?thesis
    proof (cases "rest = []")
      case True
      have cf: "createFolder w r (f # rest) = (Called (Some (fst ?l ! 0)), ?w1)"
        using True createFolder_found [OF False, of rest] by simp
      have "list_all is_folder_event [ChildrenList (resp_id r) ?q]" by simp
      with t1 have "\<exists>evs. trace ?w1 = trace w @ evs \<and> list_all is_folder_event evs"
        by blast
      then show ?thesis unfolding cf by simp
    next
      case rest: False
      let ?res = "createFolder ?w1 (fst ?l ! 0) rest"
      have cf: "createFolder w r (f # rest) = ?res"
        using rest createFolder_found [OF False, of rest] by simp
      from Cons.IH [of ?w1 "fst ?l ! 0"] obtain new evs where
        i: "entries (snd ?res) = entries ?w1 @ new"
           "reject_upload (snd ?res) = reject_upload ?w1"
           "max_arguments (snd ?res) = max_arguments ?w1"
           "trace (snd ?res) = trace ?w1 @ evs" "list_all is_folder_event evs"
        by blast
      have "trace (snd ?res) = trace w @ (ChildrenList (resp_id r) ?q # evs)"
        using i(4) t1 by simp
      moreover have "list_all is_folder_event (ChildrenList (resp_id r) ?q # evs)"
        using i(5) by simp
      ultimately have "\<exists>evs. trace (snd ?res) = trace w @ evs \<and> list_all is_folder_event evs"
        by blast
      moreover have "\<exists>new. entries (snd ?res) = entries w @ new"
        using i(1) by simp
      ultimately show ?thesis unfolding cf using i(2,3) by simp
    qed
  next
    case True
    let ?ins = "files_insert (log_event (FilesInsert f folder_mime (resp_id r)) ?w1)
                  f folder_mime [resp_id r]"
    have t2: "trace (snd ?ins)
                = trace w @ [ChildrenList (resp_id r) ?q, FilesInsert f folder_mime (resp_id r)]"
      by simp
    have e2: "entries (snd ?ins) = entries w @ [fst ?ins]" by simp
    have l2: "list_all is_folder_event
                [ChildrenList (resp_id r) ?q, FilesInsert f folder_mime (resp_id r)]"
      by simp
    show ?thesis
    proof (cases "rest = []")
      case rest: True
      have cf: "createFolder w r (f # rest) = (Called (Some (Resource (fst ?ins))), snd ?ins)"
        using rest createFolder_missing [OF True, of rest] by simp
      have "\<exists>evs. trace (snd ?ins) = trace w @ evs \<and> list_all is_folder_event evs"
        using t2 l2 by blast
      moreover have "\<exists>new. entries (snd ?ins) = entries w @ new"
        using e2 by blast
      ultimately show ?thesis unfolding cf by simp
    next
      case rest: False
      let ?res = "createFolder (snd ?ins) (Resource (fst ?ins)) rest"
      have cf: "createFolder w r (f # rest) = ?res"
        using rest createFolder_missing [OF True, of rest] by simp
      from Cons.IH [of "snd ?ins" "Resource (fst ?ins)"] obtain new evs where
        i: "entries (snd ?res) = entries (snd ?ins) @ new"
           "reject_upload (snd ?res) = reject_upload (snd ?ins)"
           "max_arguments (snd ?res) = max_arguments (snd ?ins)"
           "trace (snd ?res) = trace (snd ?ins) @ evs" "list_all is_folder_event evs"
        by blast
      have "trace (snd ?res)
              = trace w @ (ChildrenList (resp_id r) ?q # FilesInsert f folder_mime (resp_id r) # evs)"
        using i(4) t2 by simp
      moreover have "list_all is_folder_event
              (ChildrenList (resp_id r) ?q # FilesInsert f folder_mime (resp_id r) # evs)"
        using i(5) by simp
      ultimately have "\<exists>evs. trace (snd ?res) = trace w @ evs \<and> list_all is_folder_event evs"
        by blast
      moreover have "\<exists>new. entries (snd ?res) = entries w @ (fst ?ins # new)"
        using i(1) e2 by simp
      then have "\<exists>new. entries (snd ?res) = entries w @ new" by blast
      ultimately show ?thesis unfolding cf using i(2,3) by simp
    qed
  qed
qed

text \<open>
  After \<open>createFolder\<close> a chain of folders leads along the path to the folder it
  handed over, whatever the order of the listings was.
\<close>

lemma createFolder_reaches:
  "segs \<noteq> [] \<Longrightarrow>
   \<exists>d. fst (createFolder w r segs) = Called (Some d)
     \<and> reaches (snd (createFolder w r segs)) (resp_id r) segs (resp_id d)"
proof (induction segs arbitrary: w r)
  case Nil
  then show ?case by simp
next
  case (Cons f rest)
  let ?q = "folder_query f"
  let ?l = "children_list (log_event (ChildrenList (resp_id r) ?q) w) (resp_id r) ?q"
  let ?w1 = "snd ?l"
  have m1: "matching (log_event (ChildrenList (resp_id r) ?q) w) (resp_id r) ?q
              = matching w (resp_id r) ?q"
    by (simp add: matching_def)
  show ?case
  proof (cases "matching w (resp_id r) ?q = []")
    case False
    have "fst ?l \<noteq> []" using False m1 by (simp add: children_list_empty)
    from children_list_first [OF this] m1 obtain e where
      e: "e \<in> set (matching w (resp_id r) ?q)" "fst ?l ! 0 = Ref (eid e)"
      by auto
    show ?thesis
    proof (cases "rest = []")
      case True
      have cf: "createFolder w r (f # rest) = (Called (Some (fst ?l ! 0)), ?w1)"
        using True createFolder_found [OF False, of rest] by simp
      have "matching ?w1 (resp_id r) ?q = matching w (resp_id r) ?q"
        by (simp add: matching_def)
      then have "reaches ?w1 (resp_id r) [f] (eid e)"
        using e(1) by (auto simp: list_ex_iff)
      then show ?thesis unfolding cf using True e(2) by simp
    next
      case rest: False
      let ?res = "createFolder ?w1 (fst ?l ! 0) rest"
      have cf: "createFolder w r (f # rest) = ?res"
        using rest createFolder_found [OF False, of rest] by simp
      from Cons.IH [OF rest, of ?w1 "fst ?l ! 0"] obtain d where
        d: "fst ?res = Called (Some d)" "reaches (snd ?res) (eid e) rest (resp_id d)"
        using e(2) by auto
      from createFolder_frame [of ?w1 "fst ?l ! 0" rest] obtain new where
        "entries (snd ?res) = entries ?w1 @ new" by blast
      then have "entries (snd ?res) = entries w @ new" by simp
      from matching_append [OF this] have "e \<in> set (matching (snd ?res) (resp_id r) ?q)"
        using e(1) by simp
      with d(2) have "reaches (snd ?res) (resp_id r) (f # rest) (resp_id d)"
        by (auto simp: list_ex_iff)
      with d(1) show ?thesis unfolding cf by blast
    qed
  next
    case True
    let ?ins = "files_insert (log_event (FilesInsert f folder_mime (resp_id r)) ?w1)
                  f folder_mime [resp_id r]"
    have ee: "entries (snd ?ins) = entries w @ [fst ?ins]" by simp
    have m: "matches (resp_id r) ?q (fst ?ins)"
      by (simp add: files_insert_def matches_def Let_def)
    show ?thesis
    proof (cases "rest = []")
      case rest: True
      have cf: "createFolder w r (f # rest) = (Called (Some (Resource (fst ?ins))), snd ?ins)"
        using rest createFolder_missing [OF True, of rest] by simp
      have "fst ?ins \<in> set (matching (snd ?ins) (resp_id r) ?q)"
        using matching_append [OF ee] m by simp
      then have "reaches (snd ?ins) (resp_id r) [f] (eid (fst ?ins))"
        by (auto simp: list_ex_iff)
      then show ?thesis unfolding cf using rest by simp
    next
      case rest: False
      let ?res = "createFolder (snd ?ins) (Resource (fst ?ins)) rest"
      have cf: "createFolder w r (f # rest) = ?res"
        using rest createFolder_missing [OF True, of rest] by simp
      from Cons.IH [OF rest, of "snd ?ins" "Resource (fst ?ins)"] obtain d where
        d: "fst ?res = Called (Some d)" "reaches (snd ?res) (eid (fst ?ins)) rest (resp_id d)"
        by auto
      from createFolder_frame [of "snd ?ins" "Resource (fst ?ins)" rest] obtain new where
        "entries (snd ?res) = entries (snd ?ins) @ new" by blast
      then have "entries (snd ?res) = entries w @ (fst ?ins # new)" using ee by simp
      from matching_append [OF this] have "fst ?ins \<in> set (matching (snd ?res) (resp_id r) ?q)"
        using m by simp
      with d(2) have "reaches (snd ?res) (resp_id r) (f # rest) (resp_id d)"
        by (auto simp: list_ex_iff)
      with d(1) show ?thesis unfolding cf by blast
    qed
  qed
qed

text \<open>
  A path with a single folder at each level is walked without a change to the store,
  whatever the order of the listings is.
\<close>

lemma createFolder_single:
  "segs \<noteq> [] \<Longrightarrow> single_path w (resp_id r) segs = Some i \<Longrightarrow>
   fst (createFolder w r segs) = Called (Some (Ref i))
   \<and> entries (snd (createFolder w r segs)) = entries w
   \<and> next_id (snd (createFolder w r segs)) = next_id w
   \<and> (\<exists>evs. trace (snd (createFolder w r segs)) = trace w @ evs \<and> list_all is_ChildrenList evs)"
proof (induction segs arbitrary: w r)
  case Nil
  then show ?case by simp
next
  case (Cons f rest)
  let ?q = "folder_query f"
  let ?l = "children_list (log_event (ChildrenList (resp_id r) ?q) w) (resp_id r) ?q"
  let ?w1 = "snd ?l"
  from Cons.prems(2) obtain e where
    m: "matching w (resp_id r) ?q = [e]" and s: "single_path w (eid e) rest = Some i"
    by (auto split: list.splits)
  have ne: "matching w (resp_id r) ?q \<noteq> []" using m by simp
  have "matching (log_event (ChildrenList (resp_id r) ?q) w) (resp_id r) ?q = [e]"
    using m by (simp add: matching_def)
  then have x: "fst ?l = [Ref (eid e)]" by (rule children_list_single)
  have t1: "trace ?w1 = trace w @ [ChildrenList (resp_id r) ?q]" by simp
  show ?case
  proof (cases "rest = []")
    case True
    with s have "eid e = i" by simp
    have cf: "createFolder w r (f # rest) = (Called (Some (Ref i)), ?w1)"
      using True createFolder_found [OF ne, of rest] x \<open>eid e = i\<close> by simp
    have "list_all is_ChildrenList [ChildrenList (resp_id r) ?q]" by simp
    with t1 have "\<exists>evs. trace ?w1 = trace w @ evs \<and> list_all is_ChildrenList evs" by blast
    then show ?thesis unfolding cf by simp
  next
    case False
    let ?res = "createFolder ?w1 (Ref (eid e)) rest"
    have cf: "createFolder w r (f # rest) = ?res"
      using False createFolder_found [OF ne, of rest] x by simp
    have s1: "single_path ?w1 (resp_id (Ref (eid e))) rest = Some i"
      using s single_path_entries [of ?w1 w] by simp
    from Cons.IH [OF False s1] obtain evs where
      i: "fst ?res = Called (Some (Ref i))" "entries (snd ?res) = entries ?w1"
         "next_id (snd ?res) = next_id ?w1"
         "trace (snd ?res) = trace ?w1 @ evs" "list_all is_ChildrenList evs"
      by blast
    have "trace (snd ?res) = trace w @ (ChildrenList (resp_id r) ?q # evs)"
      using i(4) t1 by simp
    moreover have "list_all is_ChildrenList (ChildrenList (resp_id r) ?q # evs)"
      using i(5) by simp
    ultimately have "\<exists>evs. trace (snd ?res) = trace w @ evs \<and> list_all is_ChildrenList evs"
      by blast
    then show ?thesis unfolding cf using i(1,2,3) by simp
  qed
qed

lemma createPath_ready:
  assumes "driveAPILoaded fm" and "path2array b \<noteq> []"
  shows "\<exists>dir. fst (createPath fm w b) = Called (Some dir)
     \<and> reaches (snd (createPath fm w b)) ''root'' (path2array b) (resp_id dir)
     \<and> reject_upload (snd (createPath fm w b)) = reject_upload w
     \<and> max_arguments (snd (createPath fm w b)) = max_arguments w
     \<and> (\<exists>evs. trace (snd (createPath fm w b)) = trace w @ evs \<and> list_all is_folder_event evs)"
proof -
  have c: "createPath fm w b = createFolder w (Ref ''root'') (path2array b)"
    using assms by (simp add: createPath_def Let_def)
  from createFolder_reaches [OF assms(2), of w "Ref ''root''"] obtain d where
    "fst (createFolder w (Ref ''root'') (path2array b)) = Called (Some d)"
    "reaches (snd (createFolder w (Ref ''root'') (path2array b))) ''root'' (path2array b) (resp_id d)"
    by auto
  then show ?thesis
    unfolding c using createFolder_frame [of w "Ref ''root''" "path2array b"] by blast
qed

lemma createPath_root:
  "path2array p = [] \<Longrightarrow>
   createPath fm w p =
     (if driveAPILoaded fm then (Called None, w)
      else (NoCall, log_event (ConsoleError ''GDrive Api not loaded'') w))"
  by (simp add: createPath_def)

lemma createPath_not_loaded:
  "\<not> driveAPILoaded fm \<Longrightarrow>
   createPath fm w p = (NoCall, log_event (ConsoleError ''GDrive Api not loaded'') w)"
  by (simp add: createPath_def)

lemmas eval_path = path2array_def js_index_def slice_from_def

lemmas eval_string = lastIndexOf_def substring_def substring_from_def

lemmas eval_drive = createPath_def createFolder.simps children_list_def matching_def
  next_pick_def matches_def folder_query_def files_insert_def log_event_def folder_mime_def
  sq_def new_id_def download_url_def Let_def

lemma ex_segs: "path2array ''/app/data'' = [''app'', ''data'']"
  by (simp add: eval_path)

lemma ex_basedir:
  "substring ''/app/data/test.bin'' 0 (lastIndexOf ''/app/data/test.bin'' CHR ''/'') = ''/app/data''"
  by (simp add: eval_string)

lemma ex_name:
  "substring_from ''/app/data/test.bin'' (lastIndexOf ''/app/data/test.bin'' CHR ''/'' + 1)
     = ''test.bin''"
  by (simp add: eval_string)

lemma ex_first:
  "fst (createPath ready_fm empty_drive ''/app/data'') = Called (Some (Resource
     \<lparr>eid = ''fx'', title = ''data'', mimeType = folder_mime, parents = [''f''],
      downloadUrl = download_url ''fx'', content = []\<rparr>))"
  by (simp add: eval_path eval_drive ready_fm_def empty_drive_def GDriveFileManager_def)

lemma ex_entries:
  "entries (snd (createPath ready_fm empty_drive ''/app/data'')) =
     [\<lparr>eid = ''f'', title = ''app'', mimeType = folder_mime, parents = [''root''],
       downloadUrl = download_url ''f'', content = []\<rparr>,
      \<lparr>eid = ''fx'', title = ''data'', mimeType = folder_mime, parents = [''f''],
       downloadUrl = download_url ''fx'', content = []\<rparr>]"
  by (simp add: eval_path eval_drive ready_fm_def empty_drive_def GDriveFileManager_def)

lemma ex_single:
  "single_path (snd (createPath ready_fm empty_drive ''/app/data'')) ''root'' [''app'', ''data'']
     = Some ''fx''"
  by (simp add: matching_def ex_entries matches_def folder_query_def folder_mime_def sq_def)

text \<open>
  C3, as amended. On the cloud backend, when a first call of \<open>createPath\<close> has handed a
  folder to its callback and, after it, every level of the path has a single folder of
  the segment's name, a second call on the same path hands over the folder with the
  same identifier, now as the child reference found by the listing; it leaves the
  entries and the identifier counter of the store as they were, and every request it
  issues is a listing, none an insertion. This holds for every order in which the
  service answers the listings.
\<close>

theorem createPath_idempotent:
  assumes "fst (createPath fm w p) = Called (Some r1)"
    and "single_path (snd (createPath fm w p)) ''root'' (path2array p) = Some i"
  shows "resp_id r1 = i
    \<and> fst (createPath fm (snd (createPath fm w p)) p) = Called (Some (Ref (resp_id r1)))
    \<and> entries (snd (createPath fm (snd (createPath fm w p)) p)) = entries (snd (createPath fm w p))
    \<and> next_id (snd (createPath fm (snd (createPath fm w p)) p)) = next_id (snd (createPath fm w p))
    \<and> (\<exists>evs. trace (snd (createPath fm (snd (createPath fm w p)) p))
                = trace (snd (createPath fm w p)) @ evs
             \<and> list_all is_ChildrenList evs)"
proof -
  have l: "driveAPILoaded fm"
    using assms(1) by (auto simp: createPath_def split: if_splits)
  have n: "path2array p \<noteq> []"
    using assms(1) l by (auto simp: createPath_def Let_def split: if_splits)
  let ?segs = "path2array p"
  let ?first = "createFolder w (Ref ''root'') ?segs"
  have c1: "createPath fm w p = ?first"
    using l n by (simp add: createPath_def Let_def)
  have c2: "createPath fm (snd ?first) p = createFolder (snd ?first) (Ref ''root'') ?segs"
    using l n by (simp add: createPath_def Let_def)
  from createFolder_reaches [OF n, of w "Ref ''root''"] obtain d where
    r: "fst ?first = Called (Some d)"
       "reaches (snd ?first) (resp_id (Ref ''root'')) ?segs (resp_id d)"
    by blast
  have "d = r1" using r(1) assms(1) c1 by simp
  with r(2) have "reaches (snd ?first) ''root'' ?segs (resp_id r1)" by simp
  with assms(2) have e: "resp_id r1 = i"
    unfolding c1 by (rule reaches_single_path)
  have at: "single_path (snd ?first) (resp_id (Ref ''root'')) ?segs = Some (resp_id r1)"
    using assms(2) e unfolding c1 by simp
  show ?thesis
    unfolding c1 c2 using e createFolder_single [OF n at] by simp
qed

theorem createPath_idempotent_witness:
  "fst (createPath ready_fm empty_drive ''/app/data'') = Called (Some (Resource
     \<lparr>eid = ''fx'', title = ''data'', mimeType = folder_mime, parents = [''f''],
      downloadUrl = download_url ''fx'', content = []\<rparr>))
   \<and> single_path (snd (createPath ready_fm empty_drive ''/app/data'')) ''root''
        (path2array ''/app/data'') = Some ''fx''
   \<and> fst (createPath ready_fm (snd (createPath ready_fm empty_drive ''/app/data'')) ''/app/data'')
       = Called (Some (Ref ''fx''))
   \<and> map title (entries (snd (createPath ready_fm
         (snd (createPath ready_fm empty_drive ''/app/data'')) ''/app/data''))) = [''app'', ''data'']"
proof -
  note h1 = ex_first
  have h2: "single_path (snd (createPath ready_fm empty_drive ''/app/data'')) ''root''
        (path2array ''/app/data'') = Some ''fx''"
    unfolding ex_segs by (rule ex_single)
  from createPath_idempotent [OF h1 h2]
  have second:
    "fst (createPath ready_fm (snd (createPath ready_fm empty_drive ''/app/data'')) ''/app/data'')
       = Called (Some (Ref ''fx''))"
    and ents:
    "entries (snd (createPath ready_fm
         (snd (createPath ready_fm empty_drive ''/app/data'')) ''/app/data''))
       = entries (snd (createPath ready_fm empty_drive ''/app/data''))"
    by simp_all
  have titles: "map title (entries (snd (createPath ready_fm
         (snd (createPath ready_fm empty_drive ''/app/data'')) ''/app/data''))) = [''app'', ''data'']"
    unfolding ents ex_entries by simp
  from h1 h2 second titles show ?thesis by (intro conjI)
qed

text \<open>
  C3 as stated fails where a level of the path has two folders of the same name and
  the service answers the listing of the second call in another order: the first call
  walks into the first \<open>app\<close> and creates \<open>data\<close> there, the second call walks into the
  second \<open>app\<close>, inserts a second \<open>data\<close> and hands over another identifier.
\<close>

theorem createPath_second_call_inserts_duplicate:
  "fst (createPath ready_fm two_apps_drive ''/app/data'') = Called (Some (Resource
     \<lparr>eid = ''fxx'', title = ''data'', mimeType = folder_mime, parents = [''f''],
      downloadUrl = download_url ''fxx'', content = []\<rparr>))
   \<and> fst (createPath ready_fm (snd (createPath ready_fm two_apps_drive ''/app/data'')) ''/app/data'')
       = Called (Some (Resource
     \<lparr>eid = ''fxxx'', title = ''data'', mimeType = folder_mime, parents = [''fx''],
      downloadUrl = download_url ''fxxx'', content = []\<rparr>))
   \<and> map title (entries (snd (createPath ready_fm two_apps_drive ''/app/data'')))
       = [''app'', ''app'', ''data'']
   \<and> map title (entries (snd (createPath ready_fm
         (snd (createPath ready_fm two_apps_drive ''/app/data'')) ''/app/data'')))
       = [''app'', ''app'', ''data'', ''data'']"
  by (simp add: eval_path eval_drive ready_fm_def two_apps_drive_def empty_drive_def
      GDriveFileManager_def numeral_2_eq_2 numeral_3_eq_3)

section \<open>Properties of writeFile\<close>

lemma btoa_chars:
  "btoa (map (\<lambda>x. fromCharCode (unat x)) (b :: byte list)) = Some (base64_encode (map unat b))"
proof -
  have m: "map unat (map (\<lambda>x. fromCharCode (unat x)) b) = map unat b"
    by (rule unat_ab2str_chars)
  have "unat c < 256" if "c \<in> set (map (\<lambda>x. fromCharCode (unat x)) b)" for c
  proof -
    from that obtain x where "x \<in> set b" "c = fromCharCode (unat x)"
      by auto
    then have "unat c = unat x" by (simp add: unat_fromCharCode_byte)
    moreover have "unat x < 2 ^ 8" using unsigned_less [of x] by simp
    ultimately show ?thesis by simp
  qed
  then have "list_all (\<lambda>c. unat c < 256) (map (\<lambda>x. fromCharCode (unat x)) b)"
    unfolding list_all_iff by blast
  then show ?thesis unfolding btoa_def m by simp
qed

text \<open>The inner \<open>writeFile\<close> on a folder and a payload that fits in one call.\<close>

lemma writeFile_inner_Some:
  assumes "length (fd_bytes fileData) \<le> max_arguments w"
  shows "writeFile_inner filePath fileData w (Some dir) =
     (Called (Some (fst (drive_upload
          (log_event (ClientRequest (upload_request filePath fileData dir)) w)
          (js_or (fd_name fileData)
             (substring_from filePath (lastIndexOf filePath CHR ''/'' + 1)))
          (js_or (fd_type fileData) ''application/octet-stream'')
          [resp_id dir]
          (base64_encode (map unat (fd_bytes fileData)))))),
      snd (drive_upload
          (log_event (ClientRequest (upload_request filePath fileData dir)) w)
          (js_or (fd_name fileData)
             (substring_from filePath (lastIndexOf filePath CHR ''/'' + 1)))
          (js_or (fd_type fileData) ''application/octet-stream'')
          [resp_id dir]
          (base64_encode (map unat (fd_bytes fileData)))))"
  unfolding writeFile_inner_def Let_def multipart_wire_format_def upload_request_def
    ab2str_within [OF assms]
  by (simp only: btoa_chars option.case append_assoc)

lemma writeFile_inner_too_long:
  "max_arguments w < length (fd_bytes fileData) \<Longrightarrow>
   writeFile_inner filePath fileData w (Some dir)
     = (Thrown ''RangeError: too many arguments in a call'', w)"
  by (simp add: writeFile_inner_def Let_def ab2str_beyond)

lemma writeFile_inner_null:
  "writeFile_inner p d w None = (Thrown ''TypeError: Cannot read property id of null'', w)"
  by (simp add: writeFile_inner_def Let_def)

lemma upload_request_fields:
  "req_body (upload_request filePath fileData dir) =
     multipart_wire_format boundary
       (JSON_stringify (JObject
          [(''title'', JString (js_or (fd_name fileData)
               (substring_from filePath (lastIndexOf filePath CHR ''/'' + 1)))),
           (''mimeType'', JString (js_or (fd_type fileData) ''application/octet-stream'')),
           (''parents'', JArray [JObject [(''id'', JString (resp_id dir))]])]))
       (js_or (fd_type fileData) ''application/octet-stream'')
       (base64_encode (map unat (fd_bytes fileData)))"
  "req_headers (upload_request filePath fileData dir) =
     [(''Content-Type'', ''multipart/mixed; boundary='' @ dq @ boundary @ dq)]"
  by (simp_all add: upload_request_def)

text \<open>
  C7. Every upload request that \<open>writeFile\<close> issues has as body exactly the multipart
  wire format of the specification, with the fixed boundary, the JSON text of the
  metadata (title, mimeType, parents), the content type, and the base64 text of the
  bytes, and it carries the header \<open>Content-Type: multipart/mixed\<close> with the quoted
  boundary. The inner function issues one such request when the payload has no more
  bytes than a call may have arguments, and otherwise stops on the RangeError of
  \<open>ab2str\<close> without a request.
\<close>

theorem writeFile_multipart_wire_format:
  "(if length (fd_bytes fileData) \<le> max_arguments w
    then \<exists>req. trace (snd (writeFile_inner filePath fileData w (Some dir)))
                 = trace w @ [ClientRequest req]
      \<and> req_body req =
          multipart_wire_format boundary
            (JSON_stringify (JObject
               [(''title'', JString (js_or (fd_name fileData)
                    (substring_from filePath (lastIndexOf filePath CHR ''/'' + 1)))),
                (''mimeType'', JString (js_or (fd_type fileData) ''application/octet-stream'')),
                (''parents'', JArray [JObject [(''id'', JString (resp_id dir))]])]))
            (js_or (fd_type fileData) ''application/octet-stream'')
            (base64_encode (map unat (fd_bytes fileData)))
      \<and> req_headers req =
          [(''Content-Type'', ''multipart/mixed; boundary='' @ dq @ boundary @ dq)]
      \<and> (createPath fm w0 (substring filePath 0 (lastIndexOf filePath CHR ''/''))
             = (Called (Some dir), w)
           \<longrightarrow> trace (snd (writeFile fm w0 filePath fileData)) = trace w @ [ClientRequest req])
    else writeFile_inner filePath fileData w (Some dir)
           = (Thrown ''RangeError: too many arguments in a call'', w))
   \<and> multipart_wire_format bd j m b =
       CRLF @ ''--'' @ bd @ CRLF @ ''Content-Type: application/json'' @ CRLF @ CRLF @ j @
       CRLF @ ''--'' @ bd @ CRLF @ ''Content-Type: '' @ m @ CRLF @
       ''Content-Transfer-Encoding: base64'' @ CRLF @ CRLF @ b @ CRLF @ ''--'' @ bd @ ''--''"
proof -
  have fmt: "multipart_wire_format bd j m b =
       CRLF @ ''--'' @ bd @ CRLF @ ''Content-Type: application/json'' @ CRLF @ CRLF @ j @
       CRLF @ ''--'' @ bd @ CRLF @ ''Content-Type: '' @ m @ CRLF @
       ''Content-Transfer-Encoding: base64'' @ CRLF @ CRLF @ b @ CRLF @ ''--'' @ bd @ ''--''"
    by (simp add: multipart_wire_format_def)
  show ?thesis
  proof (cases "length (fd_bytes fileData) \<le> max_arguments w")
    case True
    let ?req = "upload_request filePath fileData dir"
    have t: "trace (snd (writeFile_inner filePath fileData w (Some dir)))
               = trace w @ [ClientRequest ?req]"
      unfolding writeFile_inner_Some [OF True] by simp
    have wf: "createPath fm w0 (substring filePath 0 (lastIndexOf filePath CHR ''/''))
                = (Called (Some dir), w)
      \<longrightarrow> trace (snd (writeFile fm w0 filePath fileData)) = trace w @ [ClientRequest ?req]"
      using t by (simp add: writeFile_def Let_def)
    from t wf upload_request_fields [of filePath fileData dir]
    have "\<exists>req. trace (snd (writeFile_inner filePath fileData w (Some dir)))
                 = trace w @ [ClientRequest req]
      \<and> req_body req =
          multipart_wire_format boundary
            (JSON_stringify (JObject
               [(''title'', JString (js_or (fd_name fileData)
                    (substring_from filePath (lastIndexOf filePath CHR ''/'' + 1)))),
                (''mimeType'', JString (js_or (fd_type fileData) ''application/octet-stream'')),
                (''parents'', JArray [JObject [(''id'', JString (resp_id dir))]])]))
            (js_or (fd_type fileData) ''application/octet-stream'')
            (base64_encode (map unat (fd_bytes fileData)))
      \<and> req_headers req =
          [(''Content-Type'', ''multipart/mixed; boundary='' @ dq @ boundary @ dq)]
      \<and> (createPath fm w0 (substring filePath 0 (lastIndexOf filePath CHR ''/''))
             = (Called (Some dir), w)
           \<longrightarrow> trace (snd (writeFile fm w0 filePath fileData)) = trace w @ [ClientRequest req])"
      by blast
    with True fmt show ?thesis by (simp only: if_True simp_thms)
  next
    case False
    then have "max_arguments w < length (fd_bytes fileData)" by simp
    from writeFile_inner_too_long [OF this] False fmt show ?thesis
      by (simp only: if_False simp_thms)
  qed
qed

theorem writeFile_multipart_wire_format_witness:
  "length (fd_bytes three_bytes) \<le> max_arguments (snd (createPath ready_fm empty_drive ''/app/data''))
   \<and> createPath ready_fm empty_drive
        (substring ''/app/data/test.bin'' 0 (lastIndexOf ''/app/data/test.bin'' CHR ''/''))
     = (Called (Some (Resource
          \<lparr>eid = ''fx'', title = ''data'', mimeType = folder_mime, parents = [''f''],
           downloadUrl = download_url ''fx'', content = []\<rparr>)),
        snd (createPath ready_fm empty_drive ''/app/data''))
   \<and> (\<exists>req. trace (snd (writeFile ready_fm empty_drive ''/app/data/test.bin'' three_bytes))
               = trace (snd (createPath ready_fm empty_drive ''/app/data'')) @ [ClientRequest req]
          \<and> req_body req =
               CRLF @ ''--'' @ boundary @ CRLF @ ''Content-Type: application/json'' @ CRLF @ CRLF @
               ''{'' @ dq @ ''title'' @ dq @ '':'' @ dq @ ''test.bin'' @ dq @ '','' @
               dq @ ''mimeType'' @ dq @ '':'' @ dq @ ''application/octet-stream'' @ dq @ '','' @
               dq @ ''parents'' @ dq @ '':[{'' @ dq @ ''id'' @ dq @ '':'' @ dq @ ''fx'' @ dq @ ''}]}'' @
               CRLF @ ''--'' @ boundary @ CRLF @ ''Content-Type: application/octet-stream'' @ CRLF @
               ''Content-Transfer-Encoding: base64'' @ CRLF @ CRLF @ ''AQID'' @
               CRLF @ ''--'' @ boundary @ ''--''
          \<and> req_headers req =
               [(''Content-Type'', ''multipart/mixed; boundary='' @ dq @ boundary @ dq)])"
proof -
  let ?dir = "Resource \<lparr>eid = ''fx'', title = ''data'', mimeType = folder_mime, parents = [''f''],
           downloadUrl = download_url ''fx'', content = []\<rparr>"
  let ?w1 = "snd (createPath ready_fm empty_drive ''/app/data'')"
  have rd: "driveAPILoaded ready_fm" by (simp add: ready_fm_def)
  have sg: "path2array ''/app/data'' \<noteq> []" by (simp add: ex_segs)
  have "max_arguments ?w1 = max_arguments empty_drive"
    using createPath_ready [OF rd sg, of empty_drive] by blast
  then have len: "length (fd_bytes three_bytes) \<le> max_arguments ?w1"
    by (simp add: three_bytes_def empty_drive_def)
  have h: "createPath ready_fm empty_drive
             (substring ''/app/data/test.bin'' 0 (lastIndexOf ''/app/data/test.bin'' CHR ''/''))
           = (Called (Some ?dir), ?w1)"
    unfolding ex_basedir using ex_first by (simp add: prod_eq_iff)
  have nm: "js_or (fd_name three_bytes)
              (substring_from ''/app/data/test.bin'' (lastIndexOf ''/app/data/test.bin'' CHR ''/'' + 1))
            = ''test.bin''"
    by (simp add: ex_name js_or_def three_bytes_def)
  have mm: "js_or (fd_type three_bytes) ''application/octet-stream'' = ''application/octet-stream''"
    by (simp add: js_or_def three_bytes_def)
  have b: "base64_encode (map unat (fd_bytes three_bytes)) = ''AQID''"
    by (simp add: three_bytes_def b64_char_def b64_alphabet_def)
  have j: "JSON_stringify (JObject
               [(''title'', JString ''test.bin''),
                (''mimeType'', JString ''application/octet-stream''),
                (''parents'', JArray [JObject [(''id'', JString ''fx'')]])])
           = ''{'' @ dq @ ''title'' @ dq @ '':'' @ dq @ ''test.bin'' @ dq @ '','' @
               dq @ ''mimeType'' @ dq @ '':'' @ dq @ ''application/octet-stream'' @ dq @ '','' @
               dq @ ''parents'' @ dq @ '':[{'' @ dq @ ''id'' @ dq @ '':'' @ dq @ ''fx'' @ dq @ ''}]}''"
    by (simp add: QuoteJSONString_def quote_char_def dq_def)
  have rid: "resp_id ?dir = ''fx''" by simp
  from writeFile_multipart_wire_format
         [where fileData = three_bytes and w = ?w1 and filePath = "''/app/data/test.bin''"
            and dir = ?dir and fm = ready_fm and ?w0.0 = empty_drive, THEN conjunct1]
  have "\<exists>req. trace (snd (writeFile_inner ''/app/data/test.bin'' three_bytes ?w1 (Some ?dir)))
                 = trace ?w1 @ [ClientRequest req]
      \<and> req_body req =
          multipart_wire_format boundary
            (JSON_stringify (JObject
               [(''title'', JString (js_or (fd_name three_bytes)
                    (substring_from ''/app/data/test.bin''
                       (lastIndexOf ''/app/data/test.bin'' CHR ''/'' + 1)))),
                (''mimeType'', JString (js_or (fd_type three_bytes) ''application/octet-stream'')),
                (''parents'', JArray [JObject [(''id'', JString (resp_id ?dir))]])]))
            (js_or (fd_type three_bytes) ''application/octet-stream'')
            (base64_encode (map unat (fd_bytes three_bytes)))
      \<and> req_headers req =
          [(''Content-Type'', ''multipart/mixed; boundary='' @ dq @ boundary @ dq)]
      \<and> (createPath ready_fm empty_drive
             (substring ''/app/data/test.bin'' 0 (lastIndexOf ''/app/data/test.bin'' CHR ''/''))
             = (Called (Some ?dir), ?w1)
           \<longrightarrow> trace (snd (writeFile ready_fm empty_drive ''/app/data/test.bin'' three_bytes))
               = trace ?w1 @ [ClientRequest req])"
    using len by (simp only: if_True)
  then obtain req where
    r: "req_body req =
          multipart_wire_format boundary
            (JSON_stringify (JObject
               [(''title'', JString (js_or (fd_name three_bytes)
                    (substring_from ''/app/data/test.bin''
                       (lastIndexOf ''/app/data/test.bin'' CHR ''/'' + 1)))),
                (''mimeType'', JString (js_or (fd_type three_bytes) ''application/octet-stream'')),
                (''parents'', JArray [JObject [(''id'', JString (resp_id ?dir))]])]))
            (js_or (fd_type three_bytes) ''application/octet-stream'')
            (base64_encode (map unat (fd_bytes three_bytes)))"
       "req_headers req = [(''Content-Type'', ''multipart/mixed; boundary='' @ dq @ boundary @ dq)]"
       "createPath ready_fm empty_drive
             (substring ''/app/data/test.bin'' 0 (lastIndexOf ''/app/data/test.bin'' CHR ''/''))
           = (Called (Some ?dir), ?w1)
        \<longrightarrow> trace (snd (writeFile ready_fm empty_drive ''/app/data/test.bin'' three_bytes))
             = trace ?w1 @ [ClientRequest req]"
    by blast
  have body: "req_body req =
               CRLF @ ''--'' @ boundary @ CRLF @ ''Content-Type: application/json'' @ CRLF @ CRLF @
               ''{'' @ dq @ ''title'' @ dq @ '':'' @ dq @ ''test.bin'' @ dq @ '','' @
               dq @ ''mimeType'' @ dq @ '':'' @ dq @ ''application/octet-stream'' @ dq @ '','' @
               dq @ ''parents'' @ dq @ '':[{'' @ dq @ ''id'' @ dq @ '':'' @ dq @ ''fx'' @ dq @ ''}]}'' @
               CRLF @ ''--'' @ boundary @ CRLF @ ''Content-Type: application/octet-stream'' @ CRLF @
               ''Content-Transfer-Encoding: base64'' @ CRLF @ CRLF @ ''AQID'' @
               CRLF @ ''--'' @ boundary @ ''--''"
    unfolding r(1) nm mm b rid j multipart_wire_format_def by simp
  from r(3) h have "trace (snd (writeFile ready_fm empty_drive ''/app/data/test.bin'' three_bytes))
             = trace ?w1 @ [ClientRequest req]" by blast
  with len h body r(2) show ?thesis by blast
qed

text \<open>What \<open>writeFile\<close> does once the parent part has a segment and the API is loaded.\<close>

lemma writeFile_ready:
  assumes "driveAPILoaded fm"
    and "path2array (substring p 0 (lastIndexOf p CHR ''/'')) \<noteq> []"
  shows "\<exists>dir. fst (createPath fm w (substring p 0 (lastIndexOf p CHR ''/''))) = Called (Some dir)
     \<and> writeFile fm w p d
         = writeFile_inner p d (snd (createPath fm w (substring p 0 (lastIndexOf p CHR ''/''))))
             (Some dir)"
proof -
  let ?b = "substring p 0 (lastIndexOf p CHR ''/'')"
  from createPath_ready [OF assms, of w] obtain dir where
    c: "fst (createPath fm w ?b) = Called (Some dir)" by blast
  then have cp: "createPath fm w ?b = (Called (Some dir), snd (createPath fm w ?b))"
    by (simp add: prod_eq_iff)
  have "writeFile fm w p d = writeFile_inner p d (snd (createPath fm w ?b)) (Some dir)"
    unfolding writeFile_def Let_def by (subst cp) simp
  with c show ?thesis by blast
qed

lemma writeFile_not_loaded:
  "\<not> driveAPILoaded fm \<Longrightarrow>
   writeFile fm w p d = (NoCall, log_event (ConsoleError ''GDrive Api not loaded'') w)"
  by (simp add: writeFile_def Let_def createPath_not_loaded)

lemma writeFile_rejected:
  assumes "driveAPILoaded fm"
    and "path2array (substring p 0 (lastIndexOf p CHR ''/'')) \<noteq> []"
    and "length (fd_bytes d) \<le> max_arguments w"
    and "reject_upload w"
  shows "fst (writeFile fm w p d) = Called (Some (UploadError 403))"
proof -
  let ?w1 = "snd (createPath fm w (substring p 0 (lastIndexOf p CHR ''/'')))"
  from writeFile_ready [OF assms(1,2), of w d] obtain dir where
    wf: "writeFile fm w p d = writeFile_inner p d ?w1 (Some dir)" by blast
  from createPath_ready [OF assms(1,2), of w] have
    k: "reject_upload ?w1 = reject_upload w" "max_arguments ?w1 = max_arguments w"
    by blast+
  have len: "length (fd_bytes d) \<le> max_arguments ?w1" using assms(3) k(2) by simp
  show ?thesis
    unfolding wf writeFile_inner_Some [OF len] using k(1) assms(4)
    by (simp add: drive_upload_result)
qed

lemma writeFile_too_long:
  assumes "driveAPILoaded fm"
    and "path2array (substring p 0 (lastIndexOf p CHR ''/'')) \<noteq> []"
    and "max_arguments w < length (fd_bytes d)"
  shows "writeFile fm w p d
     = (Thrown ''RangeError: too many arguments in a call'',
        snd (createPath fm w (substring p 0 (lastIndexOf p CHR ''/''))))"
proof -
  let ?w1 = "snd (createPath fm w (substring p 0 (lastIndexOf p CHR ''/'')))"
  from writeFile_ready [OF assms(1,2), of w d] obtain dir where
    wf: "writeFile fm w p d = writeFile_inner p d ?w1 (Some dir)" by blast
  from createPath_ready [OF assms(1,2), of w] have "max_arguments ?w1 = max_arguments w"
    by blast
  then have "max_arguments ?w1 < length (fd_bytes d)" using assms(3) by simp
  then show ?thesis unfolding wf by (rule writeFile_inner_too_long)
qed

text \<open>
  C4, as amended. On the cloud backend, for every path whose parent part has at least
  one segment and every payload that has no more bytes than a call may have
  arguments: with the drive API loaded, \<open>writeFile\<close> runs \<open>createPath\<close> on the parent
  part, after which a chain of folders leads along the parent part to the folder
  handed over, and only then issues the one upload request. The callback receives the
  response of the upload: the new file record, whose title is the name of the data
  when it has one and the leaf name otherwise, whose type is the type of the data when
  it has one and \<open>application/octet-stream\<close> otherwise, and whose parent is that folder,
  when the service accepts the upload, and the error response of the service, not
  \<open>null\<close>, when it rejects it. With the drive API not loaded it logs that and does
  nothing else.
\<close>

theorem writeFile_creates_parents_then_uploads:
  assumes "path2array (substring p 0 (lastIndexOf p CHR ''/'')) \<noteq> []"
    and "length (fd_bytes d) \<le> max_arguments w"
  shows "if driveAPILoaded fm
    then \<exists>dir w1 req.
        createPath fm w (substring p 0 (lastIndexOf p CHR ''/'')) = (Called (Some dir), w1)
      \<and> reaches w1 ''root'' (path2array (substring p 0 (lastIndexOf p CHR ''/''))) (resp_id dir)
      \<and> (\<exists>evs. trace w1 = trace w @ evs \<and> list_all is_folder_event evs)
      \<and> trace (snd (writeFile fm w p d)) = trace w1 @ [ClientRequest req]
      \<and> (if reject_upload w
          then writeFile fm w p d
                 = (Called (Some (UploadError 403)), log_event (ClientRequest req) w1)
          else \<exists>e. fst (writeFile fm w p d) = Called (Some (Uploaded e))
            \<and> title e = js_or (fd_name d) (substring_from p (lastIndexOf p CHR ''/'' + 1))
            \<and> mimeType e = js_or (fd_type d) ''application/octet-stream''
            \<and> parents e = [resp_id dir]
            \<and> content e = base64_encode (map unat (fd_bytes d))
            \<and> entries (snd (writeFile fm w p d)) = entries w1 @ [e])
    else writeFile fm w p d = (NoCall, log_event (ConsoleError ''GDrive Api not loaded'') w)"
proof (cases "driveAPILoaded fm")
  case False
  then show ?thesis by (simp add: writeFile_not_loaded)
next
  case True
  let ?b = "substring p 0 (lastIndexOf p CHR ''/'')"
  let ?w1 = "snd (createPath fm w ?b)"
  from createPath_ready [OF True assms(1), of w] obtain dir evs where
    c: "fst (createPath fm w ?b) = Called (Some dir)"
       "reaches ?w1 ''root'' (path2array ?b) (resp_id dir)"
       "reject_upload ?w1 = reject_upload w"
       "max_arguments ?w1 = max_arguments w"
       "trace ?w1 = trace w @ evs" "list_all is_folder_event evs"
    by blast
  have cp: "createPath fm w ?b = (Called (Some dir), ?w1)"
    using c(1) by (simp add: prod_eq_iff)
  have wf: "writeFile fm w p d = writeFile_inner p d ?w1 (Some dir)"
    unfolding writeFile_def Let_def by (subst cp) simp
  have ev: "\<exists>evs. trace ?w1 = trace w @ evs \<and> list_all is_folder_event evs"
    using c(5,6) by blast
  let ?name = "js_or (fd_name d) (substring_from p (lastIndexOf p CHR ''/'' + 1))"
  let ?mime = "js_or (fd_type d) ''application/octet-stream''"
  let ?b64 = "base64_encode (map unat (fd_bytes d))"
  let ?req = "upload_request p d dir"
  have len1: "length (fd_bytes d) \<le> max_arguments ?w1" using assms(2) c(4) by simp
  let ?up = "drive_upload (log_event (ClientRequest ?req) ?w1) ?name ?mime [resp_id dir] ?b64"
  have wi: "writeFile fm w p d = (Called (Some (fst ?up)), snd ?up)"
    unfolding wf writeFile_inner_Some [OF len1] ..
  have t: "trace (snd (writeFile fm w p d)) = trace ?w1 @ [ClientRequest ?req]"
    unfolding wi by simp
  have u: "if reject_upload w
      then writeFile fm w p d
             = (Called (Some (UploadError 403)), log_event (ClientRequest ?req) ?w1)
      else \<exists>e. fst (writeFile fm w p d) = Called (Some (Uploaded e))
             \<and> title e = ?name \<and> mimeType e = ?mime \<and> parents e = [resp_id dir]
             \<and> content e = ?b64
             \<and> entries (snd (writeFile fm w p d)) = entries ?w1 @ [e]"
    unfolding wi using c(3) by (simp add: drive_upload_result)
  from cp c(2) ev t u have "\<exists>dir w1 req.
        createPath fm w ?b = (Called (Some dir), w1)
      \<and> reaches w1 ''root'' (path2array ?b) (resp_id dir)
      \<and> (\<exists>evs. trace w1 = trace w @ evs \<and> list_all is_folder_event evs)
      \<and> trace (snd (writeFile fm w p d)) = trace w1 @ [ClientRequest req]
      \<and> (if reject_upload w
          then writeFile fm w p d
                 = (Called (Some (UploadError 403)), log_event (ClientRequest req) w1)
          else \<exists>e. fst (writeFile fm w p d) = Called (Some (Uploaded e))
            \<and> title e = ?name \<and> mimeType e = ?mime \<and> parents e = [resp_id dir]
            \<and> content e = ?b64
            \<and> entries (snd (writeFile fm w p d)) = entries w1 @ [e])"
    by blast
  with True show ?thesis by (simp only: if_True)
qed

lemma ex_parent_segs:
  "path2array (substring ''/app/data/test.bin'' 0 (lastIndexOf ''/app/data/test.bin'' CHR ''/''))
     = [''app'', ''data'']"
  by (simp add: ex_basedir ex_segs)

theorem writeFile_creates_parents_then_uploads_witness:
  "path2array (substring ''/app/data/test.bin'' 0 (lastIndexOf ''/app/data/test.bin'' CHR ''/''))
       = [''app'', ''data'']
   \<and> entries empty_drive = []
   \<and> (\<exists>e. fst (writeFile ready_fm empty_drive ''/app/data/test.bin'' three_bytes)
              = Called (Some (Uploaded e))
          \<and> title e = ''test.bin'' \<and> content e = ''AQID'')
   \<and> (\<exists>e. fst (writeFile ready_fm empty_drive ''/app/data/test.bin'' named_bytes)
              = Called (Some (Uploaded e))
          \<and> title e = ''n.txt'' \<and> mimeType e = ''text/plain'')"
proof -
  have h1: "driveAPILoaded ready_fm" by (simp add: ready_fm_def)
  have h2: "path2array (substring ''/app/data/test.bin'' 0
              (lastIndexOf ''/app/data/test.bin'' CHR ''/'')) \<noteq> []"
    by (simp add: ex_parent_segs)
  have n: "entries empty_drive = []" by (simp add: empty_drive_def)
  have r: "\<not> reject_upload empty_drive" by (simp add: empty_drive_def)
  have l3: "length (fd_bytes three_bytes) \<le> max_arguments empty_drive"
    by (simp add: three_bytes_def empty_drive_def)
  have l4: "length (fd_bytes named_bytes) \<le> max_arguments empty_drive"
    by (simp add: named_bytes_def empty_drive_def)
  have nm: "js_or (fd_name three_bytes)
              (substring_from ''/app/data/test.bin'' (lastIndexOf ''/app/data/test.bin'' CHR ''/'' + 1))
            = ''test.bin''"
    by (simp add: ex_name js_or_def three_bytes_def)
  have nm4: "js_or (fd_name named_bytes)
              (substring_from ''/app/data/test.bin'' (lastIndexOf ''/app/data/test.bin'' CHR ''/'' + 1))
            = ''n.txt''"
    by (simp add: js_or_def named_bytes_def)
  have mm4: "js_or (fd_type named_bytes) ''application/octet-stream'' = ''text/plain''"
    by (simp add: js_or_def named_bytes_def)
  have b: "base64_encode (map unat (fd_bytes three_bytes)) = ''AQID''"
    by (simp add: three_bytes_def b64_char_def b64_alphabet_def)
  from writeFile_creates_parents_then_uploads [OF h2 l3, of ready_fm]
  have a3: "\<exists>e. fst (writeFile ready_fm empty_drive ''/app/data/test.bin'' three_bytes)
              = Called (Some (Uploaded e))
          \<and> title e = ''test.bin'' \<and> content e = ''AQID''"
    using h1 r nm b by auto
  from writeFile_creates_parents_then_uploads [OF h2 l4, of ready_fm]
  have a4: "\<exists>e. fst (writeFile ready_fm empty_drive ''/app/data/test.bin'' named_bytes)
              = Called (Some (Uploaded e))
          \<and> title e = ''n.txt'' \<and> mimeType e = ''text/plain''"
    using h1 r nm4 mm4 by auto
  from ex_parent_segs n a3 a4 show ?thesis by (intro conjI)
qed

text \<open>
  C4 as stated fails on the cloud backend, at a path whose parent does not exist: a
  rejected upload hands the error response to the callback, not \<open>null\<close>; a payload of
  130000 bytes on an engine that allows 125000 arguments stops on a RangeError and the
  callback is not called; and with the drive API not loaded nothing is created and
  the callback is not called.
\<close>

theorem writeFile_failure_gives_error_response:
  "entries rejecting_drive = [] \<and> entries empty_drive = []
   \<and> fst (writeFile ready_fm rejecting_drive ''/app/data/test.bin'' three_bytes)
       = Called (Some (UploadError 403))
   \<and> fst (writeFile ready_fm rejecting_drive ''/app/data/test.bin'' three_bytes) \<noteq> Called None
   \<and> fst (writeFile ready_fm empty_drive ''/app/data/test.bin'' large_payload)
       = Thrown ''RangeError: too many arguments in a call''
   \<and> writeFile (GDriveFileManager ''client'') empty_drive ''/app/data/test.bin'' three_bytes
       = (NoCall, log_event (ConsoleError ''GDrive Api not loaded'') empty_drive)"
proof -
  have h1: "driveAPILoaded ready_fm" by (simp add: ready_fm_def)
  have h2: "path2array (substring ''/app/data/test.bin'' 0
              (lastIndexOf ''/app/data/test.bin'' CHR ''/'')) \<noteq> []"
    by (simp add: ex_parent_segs)
  have h3: "reject_upload rejecting_drive" by (simp add: rejecting_drive_def)
  have l3: "length (fd_bytes three_bytes) \<le> max_arguments rejecting_drive"
    by (simp add: three_bytes_def rejecting_drive_def empty_drive_def)
  have big: "max_arguments empty_drive < length (fd_bytes large_payload)"
    by (simp add: large_payload_def empty_drive_def)
  have nl: "\<not> driveAPILoaded (GDriveFileManager ''client'')"
    by (simp add: GDriveFileManager_def)
  have e1: "entries rejecting_drive = []" by (simp add: rejecting_drive_def empty_drive_def)
  have e2: "entries empty_drive = []" by (simp add: empty_drive_def)
  have a: "fst (writeFile ready_fm rejecting_drive ''/app/data/test.bin'' three_bytes)
       = Called (Some (UploadError 403))"
    using h1 h2 l3 h3 by (rule writeFile_rejected)
  then have b: "fst (writeFile ready_fm rejecting_drive ''/app/data/test.bin'' three_bytes)
       \<noteq> Called None" by simp
  have c: "fst (writeFile ready_fm empty_drive ''/app/data/test.bin'' large_payload)
       = Thrown ''RangeError: too many arguments in a call''"
    using writeFile_too_long [OF h1 h2 big] by simp
  have d: "writeFile (GDriveFileManager ''client'') empty_drive ''/app/data/test.bin'' three_bytes
       = (NoCall, log_event (ConsoleError ''GDrive Api not loaded'') empty_drive)"
    using nl by (rule writeFile_not_loaded)
  from e1 e2 a b c d show ?thesis by (intro conjI)
qed

subsection \<open>Root-level paths\<close>

lemma lastIndexOf_absent: "c \<notin> set s \<Longrightarrow> lastIndexOf s c = - 1"
  by (simp add: lastIndexOf_def)

lemma lastIndexOf_last_sep:
  "c \<notin> set b \<Longrightarrow> lastIndexOf (a @ c # b) c = int (length a)"
proof -
  assume nb: "c \<notin> set b"
  have "takeWhile (\<lambda>x. x \<noteq> c) (rev b @ c # rev a) = takeWhile (\<lambda>x. x \<noteq> c) (rev b)"
    by (rule takeWhile_tail) simp
  also have "\<dots> = rev b"
    using nb by auto
  finally have "takeWhile (\<lambda>x. x \<noteq> c) (rev (a @ c # b)) = rev b" by simp
  then show ?thesis by (simp add: lastIndexOf_def)
qed

lemma substring_prefix: "substring (a @ b) 0 (int (length a)) = a"
  by (simp add: substring_def Let_def)

lemma substring_negative: "substring s 0 (- 1) = []"
  by (simp add: substring_def Let_def)

lemma path2array_empty: "path2array [] = []"
  by (simp add: path2array_def js_index_def slice_from_def)

lemma path2array_dot: "path2array ''.'' = []"
  by (simp add: path2array_def js_index_def slice_from_def)

lemma root_level_basedir_string:
  assumes "length (path2array p) = 1"
  shows "substring p 0 (lastIndexOf p CHR ''/'') = []
    \<or> substring p 0 (lastIndexOf p CHR ''/'') = ''.''"
proof -
  obtain h t where ht: "split_js CHR ''/'' p = h # t"
    using split_js_nonempty [of "CHR ''/''" p] by (cases "split_js CHR ''/'' p") auto
  have pe: "path2array p = (if h = [] \<or> h = ''.'' then t else h # t)"
    using ht by (auto simp: path2array_def js_index_def slice_from_def Let_def)
  show ?thesis
  proof (cases "h = [] \<or> h = ''.''")
    case True
    with pe assms obtain x where t: "t = [x]"
      by (cases t) auto
    have p: "p = h @ CHR ''/'' # x"
      using join_slash_split [of p] ht t by simp
    have "CHR ''/'' \<notin> set x"
      using split_js_no_sep [of x "CHR ''/''" p] ht t by simp
    then have "lastIndexOf p CHR ''/'' = int (length h)"
      unfolding p by (rule lastIndexOf_last_sep)
    then have "substring p 0 (lastIndexOf p CHR ''/'') = h"
      using substring_prefix [of h "CHR ''/'' # x"] p by simp
    then show ?thesis
      using True by auto
  next
    case False
    with pe assms have t: "t = []" by simp
    have p: "p = h"
      using join_slash_split [of p] ht t by simp
    have "CHR ''/'' \<notin> set p"
      using split_js_no_sep [of h "CHR ''/''" p] ht p by simp
    then have "lastIndexOf p CHR ''/'' = - 1"
      by (rule lastIndexOf_absent)
    then show ?thesis
      by (simp add: substring_negative)
  qed
qed

lemma root_level_basedir:
  assumes "length (path2array p) = 1"
  shows "path2array (substring p 0 (lastIndexOf p CHR ''/'')) = []"
  using root_level_basedir_string [OF assms] path2array_empty path2array_dot by auto

text \<open>
  C10. For every path whose segment sequence has exactly one element, the parent part
  that \<open>writeFile\<close> computes is the empty string (or a dot, for a path that starts
  with a dot and a slash) and has no segment; \<open>createPath\<close> on it calls its continuation
  with \<open>null\<close> when the drive API is loaded (and only logs when it is not); the
  continuation then reads \<open>id\<close> of \<open>null\<close> and stops on a TypeError. In either case no
  upload request is issued, the store is unchanged and the caller's callback is never
  called.
\<close>

theorem root_level_write_never_uploads:
  assumes "length (path2array p) = 1"
  shows "(substring p 0 (lastIndexOf p CHR ''/'') = []
        \<or> substring p 0 (lastIndexOf p CHR ''/'') = ''.'')
    \<and> path2array (substring p 0 (lastIndexOf p CHR ''/'')) = []
    \<and> createPath fm w (substring p 0 (lastIndexOf p CHR ''/'')) =
        (if driveAPILoaded fm then (Called None, w)
         else (NoCall, log_event (ConsoleError ''GDrive Api not loaded'') w))
    \<and> writeFile fm w p d =
        (if driveAPILoaded fm
         then (Thrown ''TypeError: Cannot read property id of null'', w)
         else (NoCall, log_event (ConsoleError ''GDrive Api not loaded'') w))
    \<and> filter is_ClientRequest (trace (snd (writeFile fm w p d))) = filter is_ClientRequest (trace w)
    \<and> entries (snd (writeFile fm w p d)) = entries w
    \<and> (case fst (writeFile fm w p d) of Called r \<Rightarrow> False | NoCall \<Rightarrow> True | Thrown e \<Rightarrow> True)"
proof -
  let ?b = "substring p 0 (lastIndexOf p CHR ''/'')"
  have b: "path2array ?b = []"
    using assms by (rule root_level_basedir)
  have c: "createPath fm w ?b =
        (if driveAPILoaded fm then (Called None, w)
         else (NoCall, log_event (ConsoleError ''GDrive Api not loaded'') w))"
    using b by (rule createPath_root)
  have wf: "writeFile fm w p d =
        (if driveAPILoaded fm
         then (Thrown ''TypeError: Cannot read property id of null'', w)
         else (NoCall, log_event (ConsoleError ''GDrive Api not loaded'') w))"
    unfolding writeFile_def Let_def c by (simp add: writeFile_inner_null)
  show ?thesis
    unfolding wf using b c root_level_basedir_string [OF assms] by simp
qed

theorem root_level_write_never_uploads_witness:
  "length (path2array ''test.bin'') = 1 \<and> length (path2array ''/test.bin'') = 1
   \<and> writeFile ready_fm empty_drive ''test.bin'' three_bytes
       = (Thrown ''TypeError: Cannot read property id of null'', empty_drive)
   \<and> writeFile ready_fm empty_drive ''/test.bin'' three_bytes
       = (Thrown ''TypeError: Cannot read property id of null'', empty_drive)"
proof -
  have h1: "length (path2array ''test.bin'') = 1" by (simp add: eval_path)
  have h2: "length (path2array ''/test.bin'') = 1" by (simp add: eval_path)
  have r: "driveAPILoaded ready_fm" by (simp add: ready_fm_def)
  show ?thesis
    using h1 h2 r
      root_level_write_never_uploads [OF h1, of ready_fm empty_drive three_bytes]
      root_level_write_never_uploads [OF h2, of ready_fm empty_drive three_bytes]
    by simp
qed

section \<open>Session, reading and user information\<close>

text \<open>
  C1. Session acquisition is to be idempotent: with a session in place (client library
  loaded, app authorized, drive API loaded) a further \<open>requestFileSystem\<close> is to call
  back with \<open>true\<close> without a new authorization. The code authorizes nothing again, but
  it does not call back either: \<open>loadGDriveApi\<close> has no branch for an API that is
  already loaded. The same happens in the state the code itself reaches after a granted
  first call, where \<open>clientOAuthAPILoaded\<close> is still false.
\<close>

theorem requestFileSystem_existing_session_no_callback:
  "requestFileSystem immediate
      (fm\<lparr>clientOAuthAPILoaded := True, authorized := True, driveAPILoaded := True\<rparr>) w
     = (NoCall, fm\<lparr>clientOAuthAPILoaded := True, authorized := True, driveAPILoaded := True\<rparr>, w)
   \<and> requestFileSystem immediate
      (fm\<lparr>clientOAuthAPILoaded := False, authorized := True, driveAPILoaded := True\<rparr>) w
     = (NoCall, fm\<lparr>clientOAuthAPILoaded := False, authorized := True, driveAPILoaded := True\<rparr>,
        log_event (GapiLoad ''auth:client'') w)
   \<and> fst (requestFileSystem False (GDriveFileManager ''client'') empty_drive) = Called True
   \<and> fst (requestFileSystem False
            (fst (snd (requestFileSystem False (GDriveFileManager ''client'') empty_drive)))
            (snd (snd (requestFileSystem False (GDriveFileManager ''client'') empty_drive))))
       = NoCall"
  by (simp add: requestFileSystem_def requestFS_def loadGDriveApi_def auth_granted_def
      GDriveFileManager_def empty_drive_def log_event_def Let_def)

text \<open>
  C5. \<open>readFile\<close> is to resolve the path with the existence check and then fetch and
  decode the content. The code calls \<open>this.isfile\<close>, a name the manager does not have
  (the method is \<open>isFile\<close>), so for every path it stops on a TypeError before any
  request, and the callback receives neither bytes nor \<open>null\<close>.
\<close>

theorem readFile_calls_undefined_isfile:
  "readFile fm w filePath = (Thrown ''TypeError: this.isfile is not a function'', w)
   \<and> gdrive_method ''isfile'' = None
   \<and> gdrive_method ''isFile'' = Some isFile"
  by (simp add: readFile_def gdrive_method_def)

text \<open>
  C6. \<open>readFileByID\<close> is to copy the entry, read the copy and delete the copy once
  after the read. The code makes the copy and then stops in \<open>readFile\<close> on the
  TypeError of \<open>this.isfile\<close>: no delete is issued, the temporary copy stays in the
  store and the callback is not called.
\<close>

theorem readFileByID_leaves_temporary_copy:
  "readFileByID (fm\<lparr>driveAPILoaded := True\<rparr>) w fileID
     = (Thrown ''TypeError: this.isfile is not a function'',
        snd (files_copy (log_event (FilesCopy fileID ''tempGDriveFile.tmp'') w)
               fileID ''tempGDriveFile.tmp''))
   \<and> fst (readFileByID ready_fm one_file_drive ''f'')
       = Thrown ''TypeError: this.isfile is not a function''
   \<and> map title (entries (snd (readFileByID ready_fm one_file_drive ''f'')))
       = [''a.bin'', ''tempGDriveFile.tmp'']
   \<and> trace (snd (readFileByID ready_fm one_file_drive ''f''))
       = [FilesCopy ''f'' ''tempGDriveFile.tmp'']"
  by (simp add: readFileByID_def readFile_def gdrive_method_def files_copy_def files_get_def
      log_event_def ready_fm_def one_file_drive_def empty_drive_def GDriveFileManager_def Let_def
      split: option.split)

text \<open>
  C9. \<open>getUserInfo\<close> answers from the cache without a request when the cache is
  filled, and otherwise issues one lookup, stores the name and the address and hands
  them over. It is also to log an error and call nothing when the backend is not
  ready; the code has no such check: with an empty cache and no drive API it stops on
  a TypeError and logs nothing.
\<close>

theorem getUserInfo_has_no_ready_check:
  "getUserInfo (fm\<lparr>userInfo := None\<rparr>) (w\<lparr>client_drive := False\<rparr>)
     = (Thrown ''TypeError: Cannot read property about of undefined'',
        fm\<lparr>userInfo := None\<rparr>, w\<lparr>client_drive := False\<rparr>)
   \<and> getUserInfo (fm\<lparr>userInfo := Some u\<rparr>) w = (Called u, fm\<lparr>userInfo := Some u\<rparr>, w)
   \<and> getUserInfo (fm\<lparr>userInfo := None\<rparr>) (w\<lparr>client_drive := True\<rparr>)
     = (Called \<lparr>name = about_name w, emailAddress = about_email w\<rparr>,
        fm\<lparr>userInfo := Some \<lparr>name = about_name w, emailAddress = about_email w\<rparr>\<rparr>,
        log_event AboutGet (w\<lparr>client_drive := True\<rparr>))
   \<and> getUserInfo (GDriveFileManager ''client'') (empty_drive\<lparr>client_drive := False\<rparr>)
     = (Thrown ''TypeError: Cannot read property about of undefined'',
        GDriveFileManager ''client'', empty_drive\<lparr>client_drive := False\<rparr>)
   \<and> trace (snd (snd (getUserInfo (GDriveFileManager ''client'')
                         (empty_drive\<lparr>client_drive := False\<rparr>)))) = []"
  by (simp add: getUserInfo_def log_event_def GDriveFileManager_def empty_drive_def Let_def)

section \<open>Properties of the local backend\<close>

text \<open>
  Both \<open>createPath\<close> and \<open>writeFile\<close> of the local backend call \<open>getDirectory\<close> on
  the FileSystem object itself, not on its root, so with a file system acquired they
  stop on a TypeError before any directory or file is touched.
\<close>

lemma local_createFolder_FileSystem:
  "local_createFolder api st (FileSystem r) folders
     = (Thrown ''TypeError: rootDirEntry.getDirectory is not a function'', st)"
  by (cases folders) simp_all

lemma local_createPath_throws:
  "fs_is_FileSystem st \<Longrightarrow>
   local_createPath api st path =
     (case fs st of
        Some x \<Rightarrow> (Thrown ''TypeError: rootDirEntry.getDirectory is not a function'', st)
      | None \<Rightarrow>
         (case requestFileSystem_api api (sandbox st) of
            None \<Rightarrow> (NoCall, st)
          | Some (Inl code) \<Rightarrow> (Thrown ''Could not grant filesystem'', st)
          | Some (Inr root) \<Rightarrow>
              (Thrown ''TypeError: rootDirEntry.getDirectory is not a function'',
               st\<lparr>fs := Some (FileSystem root)\<rparr>)))"
  by (auto simp: fs_is_FileSystem_def local_createPath_def local_createPath_inner_def
      local_requestFileSystem_def local_createFolder_FileSystem Let_def
      split: option.splits fs_object.splits sum.splits)

lemma local_writeFile_throws:
  "fs_is_FileSystem st \<Longrightarrow>
   local_writeFile api st filePath fileData =
     (case fs st of
        Some x \<Rightarrow> (Thrown ''TypeError: self.fs.getDirectory is not a function'', st)
      | None \<Rightarrow>
         (case requestFileSystem_api api (sandbox st) of
            None \<Rightarrow> (NoCall, st)
          | Some (Inl code) \<Rightarrow> (Thrown ''Could not grant filesystem'', st)
          | Some (Inr root) \<Rightarrow>
              (Thrown ''TypeError: self.fs.getDirectory is not a function'',
               st\<lparr>fs := Some (FileSystem root)\<rparr>)))"
  by (auto simp: fs_is_FileSystem_def local_writeFile_def checkPathAndWriteFile_def
      local_requestFileSystem_def Let_def
      split: option.splits fs_object.splits sum.splits)

end
